theory Spec2Isabelle
  imports Complex_Main "HOL-Library.AList"
begin

section \<open>JavaScript values\<close>

text \<open>
  The extension is written in JavaScript. Its templates, settings and records are plain
  objects built by the popup or read back from \<^verbatim>\<open>chrome.storage.sync\<close>, so the model works on
  a datatype of JSON-like values.

  \<^item> A number is \<open>NaN\<close> or a finite rational (\<open>typeof\<close> gives \<^verbatim>\<open>number\<close> for both). The
    infinities and the rounding of IEEE doubles are not represented.
  \<^item> An object is the list of its own enumerable properties in enumeration order. A
    key that occurs twice in the list denotes its first binding: reads go through
    \<open>map_of\<close>, enumeration through \<open>AList.clearjunk\<close>.
  \<^item> \<open>JInherited k\<close> is the member \<open>k\<close> of \<^verbatim>\<open>Object.prototype\<close>, which a read of a
    property that is not an own property finds through the prototype chain.
  \<^item> Arrays and caller-made functions are outside the model.
\<close>

datatype jsnumber = NaN | Fin rat

datatype jsval =
    JUndefined
  | JNull
  | JBool bool
  | JNum jsnumber
  | JStr string
  | JObj "(string \<times> jsval) list"
  | JInherited string

type_synonym props = "(string \<times> jsval) list"

definition object_prototype_names :: "string list" where
  "object_prototype_names =
     [''constructor'', ''toString'', ''toLocaleString'', ''valueOf'', ''hasOwnProperty'',
      ''isPrototypeOf'', ''propertyIsEnumerable'', ''__proto__'', ''__defineGetter__'',
      ''__defineSetter__'', ''__lookupGetter__'', ''__lookupSetter__'']"

text \<open>Truthiness, as \<^verbatim>\<open>!v\<close>, \<^verbatim>\<open>a || b\<close> and \<^verbatim>\<open>if (v)\<close> see it.\<close>

fun js_truthy :: "jsval \<Rightarrow> bool" where
  "js_truthy JUndefined = False"
| "js_truthy JNull = False"
| "js_truthy (JBool b) = b"
| "js_truthy (JNum NaN) = False"
| "js_truthy (JNum (Fin r)) = (r \<noteq> 0)"
| "js_truthy (JStr s) = (s \<noteq> [])"
| "js_truthy (JObj kvs) = True"
| "js_truthy (JInherited k) = True"

definition js_or :: "jsval \<Rightarrow> jsval \<Rightarrow> jsval" where
  "js_or a b = (if js_truthy a then a else b)"

fun js_typeof :: "jsval \<Rightarrow> string" where
  "js_typeof JUndefined = ''undefined''"
| "js_typeof JNull = ''object''"
| "js_typeof (JBool b) = ''boolean''"
| "js_typeof (JNum n) = ''number''"
| "js_typeof (JStr s) = ''string''"
| "js_typeof (JObj kvs) = ''object''"
| "js_typeof (JInherited k) = (if k = ''__proto__'' then ''object'' else ''function'')"

fun js_nullish :: "jsval \<Rightarrow> bool" where
  "js_nullish JUndefined = True"
| "js_nullish JNull = True"
| "js_nullish v = False"

text \<open>Decimal digits of a natural number, for array-like indices and generated ids.\<close>

fun string_of_nat :: "nat \<Rightarrow> string" where
  "string_of_nat n =
     (if n < 10 then [''0123456789'' ! n]
      else string_of_nat (n div 10) @ [''0123456789'' ! (n mod 10)])"

declare string_of_nat.simps [simp del]

text \<open>
  \<open>own_props v\<close> is what \<^verbatim>\<open>Object.entries(v)\<close> and the spread \<^verbatim>\<open>{...v}\<close> enumerate for a
  value that is not null or undefined: the own properties of an object, the indexed
  characters of a string, nothing for the other primitives and for built-in functions.
\<close>

fun own_props :: "jsval \<Rightarrow> props" where
  "own_props (JObj kvs) = AList.clearjunk kvs"
| "own_props (JStr s) = map (\<lambda>i. (string_of_nat i, JStr [s ! i])) [0..<length s]"
| "own_props v = []"

text \<open>
  \<open>js_get v k\<close> is the read \<^verbatim>\<open>v[k]\<close> for a receiver that is not null or undefined (the
  callers below raise \<open>TypeError\<close> themselves where the source would). An own property
  wins; otherwise the members of \<^verbatim>\<open>Object.prototype\<close> are found; otherwise the result is
  \<^verbatim>\<open>undefined\<close>. A string also has its \<^verbatim>\<open>length\<close>.
\<close>

definition js_get :: "jsval \<Rightarrow> string \<Rightarrow> jsval" where
  "js_get v k =
     (case map_of (own_props v) k of
        Some x \<Rightarrow> x
      | None \<Rightarrow>
          (case v of
             JStr s \<Rightarrow>
               if k = ''length'' then JNum (Fin (of_nat (length s)))
               else if k \<in> set object_prototype_names then JInherited k else JUndefined
           | JUndefined \<Rightarrow> JUndefined
           | JNull \<Rightarrow> JUndefined
           | _ \<Rightarrow> if k \<in> set object_prototype_names then JInherited k else JUndefined))"

text \<open>
  The object literal \<^verbatim>\<open>{ ...base, ...src }\<close>: every enumerated property of \<open>src\<close> is
  assigned in turn; a key already present keeps its place, a new key is appended.
\<close>

definition obj_assign :: "props \<Rightarrow> props \<Rightarrow> props" where
  "obj_assign base src = fold (\<lambda>(k, v). AList.update k v) src base"

definition js_spread :: "jsval \<Rightarrow> props" where
  "js_spread v = own_props v"

text \<open>Comparisons of a number with a constant; every comparison with \<open>NaN\<close> is false.\<close>

fun num_le :: "jsnumber \<Rightarrow> rat \<Rightarrow> bool" where
  "num_le NaN c = False"
| "num_le (Fin r) c = (r \<le> c)"

fun num_lt :: "jsnumber \<Rightarrow> rat \<Rightarrow> bool" where
  "num_lt NaN c = False"
| "num_lt (Fin r) c = (r < c)"

text \<open>\<^verbatim>\<open>typeof v !== 'number' || v <= c\<close> and \<^verbatim>\<open>typeof v !== 'number' || v < c\<close>.\<close>

fun not_number_or_le :: "jsval \<Rightarrow> rat \<Rightarrow> bool" where
  "not_number_or_le (JNum n) c = num_le n c"
| "not_number_or_le v c = True"

fun not_number_or_lt :: "jsval \<Rightarrow> rat \<Rightarrow> bool" where
  "not_number_or_lt (JNum n) c = num_lt n c"
| "not_number_or_lt v c = True"

text \<open>\<^verbatim>\<open>String.prototype.trim\<close> on the 8-bit characters a \<open>string\<close> holds.\<close>

definition js_whitespace :: "char \<Rightarrow> bool" where
  "js_whitespace c = (of_char c \<in> {9, 10, 11, 12, 13, 32, 160 :: nat})"

definition js_trim :: "string \<Rightarrow> string" where
  "js_trim s = rev (dropWhile js_whitespace (rev (dropWhile js_whitespace s)))"

section \<open>Errors\<close>

text \<open>
  Every \<^verbatim>\<open>throw\<close> of the source is a value. The source throws plain \<^verbatim>\<open>Error\<close> objects told
  apart by their message; the constructors name them as the specification does.
  \<^item> \<open>ValidationError errs\<close>: \<^verbatim>\<open>Template validation failed: \<close> followed by \<open>errs\<close> joined.
  \<^item> \<open>NotFoundOrImmutable msg\<close>: \<^verbatim>\<open>Template not found or cannot be modified\<close> (or
    \<^verbatim>\<open>deleted\<close>).
  \<^item> \<open>TemplateNotFound id\<close>: \<^verbatim>\<open>Template not found: \<close> followed by the id.
  \<^item> \<open>MissingRequiredField\<close>: \<^verbatim>\<open>FNSKU is required for label generation\<close>.
  \<^item> \<open>EncodingError\<close>: \<^verbatim>\<open>Failed to generate barcode: ...\<close>.
  \<^item> \<open>TypeError\<close>: the engine's own error for a property read on null or undefined.
  \<^item> \<open>StorageError\<close>: a rejected \<^verbatim>\<open>chrome.storage.sync\<close> call.
\<close>

datatype error =
    ValidationError "string list"
  | NotFoundOrImmutable string
  | TemplateNotFound jsval
  | MissingRequiredField
  | EncodingError
  | TypeError
  | StorageError

section \<open>The persistence backend\<close>

text \<open>
  \<^verbatim>\<open>chrome.storage.sync\<close> is a key-value store whose calls may be rejected. The list
  \<open>faults\<close> scripts the rejections: each call consumes its head, \<open>True\<close> meaning that
  this call fails; an empty list means that the calls succeed. \<open>calls\<close> logs every call
  with its outcome, oldest first.
\<close>

datatype storage_call =
    GetCall "string list"
  | SetCall props
  | RemoveCall "string list"

record backend =
  kv :: props
  faults :: "bool list"
  calls :: "(storage_call \<times> bool) list"

definition next_fault :: "backend \<Rightarrow> bool" where
  "next_fault b = (case faults b of [] \<Rightarrow> False | f # fs \<Rightarrow> f)"

definition log_call :: "storage_call \<Rightarrow> backend \<Rightarrow> backend" where
  "log_call c b = b\<lparr>faults := tl (faults b), calls := calls b @ [(c, \<not> next_fault b)]\<rparr>"

definition pick_keys :: "string list \<Rightarrow> props \<Rightarrow> props" where
  "pick_keys keys items = filter (\<lambda>(k, v). k \<in> set keys) items"

definition drop_keys :: "string list \<Rightarrow> props \<Rightarrow> props" where
  "drop_keys keys items = filter (\<lambda>(k, v). k \<notin> set keys) items"

definition storage_get :: "string list \<Rightarrow> backend \<Rightarrow> (error + props) \<times> backend" where
  "storage_get keys b =
     (if next_fault b then (Inl StorageError, log_call (GetCall keys) b)
      else (Inr (pick_keys keys (AList.clearjunk (kv b))),
            log_call (GetCall keys) b))"

definition storage_set :: "props \<Rightarrow> backend \<Rightarrow> (error + unit) \<times> backend" where
  "storage_set items b =
     (if next_fault b then (Inl StorageError, log_call (SetCall items) b)
      else (Inr (), (log_call (SetCall items) b)\<lparr>kv := obj_assign (kv b) items\<rparr>))"

definition storage_remove :: "string list \<Rightarrow> backend \<Rightarrow> (error + unit) \<times> backend" where
  "storage_remove keys b =
     (if next_fault b then (Inl StorageError, log_call (RemoveCall keys) b)
      else (Inr (), (log_call (RemoveCall keys) b)
                      \<lparr>kv := drop_keys keys (kv b)\<rparr>))"

section \<open>TemplateManager\<close>

subsection \<open>State\<close>

text \<open>
  The fields of the class, the events it has emitted (listeners only observe; \<^verbatim>\<open>emit\<close>
  swallows what they throw) and the backend. \<open>userTemplates\<close> is a value and not a
  property list because \<^verbatim>\<open>loadUserTemplates\<close> stores whatever truthy value the backend
  returns.
\<close>

record tm_state =
  builtInTemplates :: props
  userTemplates :: jsval
  tm_initialized :: bool
  tm_events :: "(string \<times> jsval) list"
  tm_storage :: backend

definition num :: "rat \<Rightarrow> jsval" where
  "num r = JNum (Fin r)"

definition thermal_57x32 :: jsval where
  "thermal_57x32 = JObj
     [(''id'', JStr ''thermal_57x32''),
      (''name'', JStr ''Thermal''),
      (''baseName'', JStr ''Thermal''),
      (''userCreated'', JBool False),
      (''width'', num 57),
      (''height'', num 32),
      (''units'', JStr ''mm''),
      (''orientation'', JStr ''landscape''),
      (''elements'', JObj
         [(''barcode'', JObj [(''x'', num 4), (''y'', num 2), (''width'', num 49),
                              (''height'', num 12)]),
          (''fnsku'', JObj [(''x'', num (57 / 2)), (''y'', num 17), (''fontSize'', num 8),
                            (''align'', JStr ''center''), (''bold'', JBool False)]),
          (''sku'', JObj [(''x'', num (57 / 2)), (''y'', num 22), (''fontSize'', num 11),
                          (''align'', JStr ''center''), (''bold'', JBool True)]),
          (''title'', JObj [(''x'', num (57 / 2)), (''y'', num 26), (''fontSize'', num 6),
                            (''align'', JStr ''center''), (''maxLength'', num 50)])]),
      (''contentInclusion'', JObj
         [(''barcode'', JBool True), (''fnsku'', JBool True), (''sku'', JBool True),
          (''title'', JBool True), (''images'', JBool False)]),
      (''createdAt'', JStr ''2025-01-01T00:00:00.000Z''),
      (''updatedAt'', JStr ''2025-01-01T00:00:00.000Z'')]"

definition thermal_57x32_minimal :: jsval where
  "thermal_57x32_minimal = JObj
     [(''id'', JStr ''thermal_57x32_minimal''),
      (''name'', JStr ''Thermal Minimal''),
      (''baseName'', JStr ''Thermal Minimal''),
      (''userCreated'', JBool False),
      (''width'', num 57),
      (''height'', num 32),
      (''units'', JStr ''mm''),
      (''orientation'', JStr ''landscape''),
      (''elements'', JObj
         [(''barcode'', JObj [(''x'', num 4), (''y'', num 4), (''width'', num 49),
                              (''height'', num 16)]),
          (''fnsku'', JObj [(''x'', num (57 / 2)), (''y'', num 24), (''fontSize'', num 10),
                            (''align'', JStr ''center''), (''bold'', JBool True)])]),
      (''contentInclusion'', JObj
         [(''barcode'', JBool True), (''fnsku'', JBool True), (''sku'', JBool False),
          (''title'', JBool False), (''images'', JBool False)]),
      (''createdAt'', JStr ''2025-01-01T00:00:00.000Z''),
      (''updatedAt'', JStr ''2025-01-01T00:00:00.000Z'')]"

definition shipping_4x6 :: jsval where
  "shipping_4x6 = JObj
     [(''id'', JStr ''shipping_4x6''),
      (''name'', JStr ''Shipping''),
      (''baseName'', JStr ''Shipping''),
      (''userCreated'', JBool False),
      (''width'', num 4),
      (''height'', num 6),
      (''units'', JStr ''in''),
      (''orientation'', JStr ''portrait''),
      (''elements'', JObj
         [(''barcode'', JObj [(''x'', num 10), (''y'', num 20), (''width'', num (408 / 5)),
                              (''height'', num 20)]),
          (''fnsku'', JObj [(''x'', num (254 / 5)), (''y'', num 50), (''fontSize'', num 12),
                            (''align'', JStr ''center''), (''bold'', JBool False)]),
          (''sku'', JObj [(''x'', num (254 / 5)), (''y'', num 70), (''fontSize'', num 16),
                          (''align'', JStr ''center''), (''bold'', JBool True)]),
          (''title'', JObj [(''x'', num (254 / 5)), (''y'', num 90), (''fontSize'', num 10),
                            (''align'', JStr ''center''), (''maxLength'', num 80)]),
          (''image'', JObj [(''x'', num 10), (''y'', num 100), (''width'', num 30),
                            (''height'', num 30)])]),
      (''contentInclusion'', JObj
         [(''barcode'', JBool True), (''fnsku'', JBool True), (''sku'', JBool True),
          (''title'', JBool True), (''images'', JBool True)]),
      (''createdAt'', JStr ''2025-01-01T00:00:00.000Z''),
      (''updatedAt'', JStr ''2025-01-01T00:00:00.000Z'')]"

definition builtin_templates :: props where
  "builtin_templates =
     [(''thermal_57x32'', thermal_57x32),
      (''thermal_57x32_minimal'', thermal_57x32_minimal),
      (''shipping_4x6'', shipping_4x6)]"

text \<open>The constructor, over the backend the extension runs against.\<close>

definition tm_new :: "backend \<Rightarrow> tm_state" where
  "tm_new b =
     \<lparr>builtInTemplates = builtin_templates, userTemplates = JObj [],
      tm_initialized = False, tm_events = [], tm_storage = b\<rparr>"

definition tm_emit :: "string \<Rightarrow> jsval \<Rightarrow> tm_state \<Rightarrow> tm_state" where
  "tm_emit ev payload s = s\<lparr>tm_events := tm_events s @ [(ev, payload)]\<rparr>"

subsection \<open>Loading and saving\<close>

text \<open>\<^verbatim>\<open>loadUserTemplates\<close>: a rejected read leaves an empty store and is only logged.\<close>

definition loadUserTemplates :: "tm_state \<Rightarrow> tm_state" where
  "loadUserTemplates s =
     (case storage_get [''fnsku_user_templates''] (tm_storage s) of
        (Inr result, b) \<Rightarrow>
          s\<lparr>userTemplates := js_or (js_get (JObj result) ''fnsku_user_templates'') (JObj []),
            tm_storage := b\<rparr>
      | (Inl e, b) \<Rightarrow> s\<lparr>userTemplates := JObj [], tm_storage := b\<rparr>)"

text \<open>\<^verbatim>\<open>saveUserTemplates\<close>: a rejected write is logged and thrown again.\<close>

definition saveUserTemplates :: "tm_state \<Rightarrow> (error + unit) \<times> tm_state" where
  "saveUserTemplates s =
     (case storage_set [(''fnsku_user_templates'', userTemplates s)] (tm_storage s) of
        (r, b) \<Rightarrow> (r, s\<lparr>tm_storage := b\<rparr>))"

definition tm_init :: "tm_state \<Rightarrow> tm_state" where
  "tm_init s =
     (if tm_initialized s then s
      else tm_emit ''initialized'' JUndefined ((loadUserTemplates s)\<lparr>tm_initialized := True\<rparr>))"

definition tm_ensureInitialized :: "tm_state \<Rightarrow> tm_state" where
  "tm_ensureInitialized s = (if \<not> tm_initialized s then tm_init s else s)"

subsection \<open>Validation\<close>

text \<open>
  \<^verbatim>\<open>validateTemplate\<close> returns \<^verbatim>\<open>{isValid, errors, warnings}\<close>. The warnings do not feed
  \<^verbatim>\<open>isValid\<close> or \<^verbatim>\<open>errors\<close> and compare coerced floating-point values, so the record
  leaves them out; what is kept of that block is the read \<^verbatim>\<open>template.name.length\<close>, which
  raises when the name is null or undefined. The read of \<^verbatim>\<open>element.x\<close> raises in the same
  way for an element that is \<^verbatim>\<open>null\<close> (\<^verbatim>\<open>typeof null\<close> is \<^verbatim>\<open>object\<close>).
\<close>

record validation =
  isValid :: bool
  errors :: "string list"

definition push_error :: "string \<Rightarrow> validation \<Rightarrow> validation" where
  "push_error msg v = v\<lparr>errors := errors v @ [msg], isValid := False\<rparr>"

definition check :: "bool \<Rightarrow> string \<Rightarrow> validation \<Rightarrow> validation" where
  "check bad msg v = (if bad then push_error msg v else v)"

text \<open>
  The checks made on one entry of \<^verbatim>\<open>template.elements\<close>: its position, its size when it
  is the barcode or the image, its font size when it is one of the three text fields.
\<close>

definition position_checks :: "string \<Rightarrow> jsval \<Rightarrow> validation \<Rightarrow> validation" where
  "position_checks elementName element v =
     check (not_number_or_lt (js_get element ''y'') 0)
       (''Element '' @ elementName @ '' y position must be a non-negative number'')
       (check (not_number_or_lt (js_get element ''x'') 0)
          (''Element '' @ elementName @ '' x position must be a non-negative number'') v)"

definition size_checks :: "string \<Rightarrow> jsval \<Rightarrow> validation \<Rightarrow> validation" where
  "size_checks elementName element v =
     (if elementName \<in> set [''barcode'', ''image''] then
        check (not_number_or_le (js_get element ''height'') 0)
          (''Element '' @ elementName @ '' height must be a positive number'')
          (check (not_number_or_le (js_get element ''width'') 0)
             (''Element '' @ elementName @ '' width must be a positive number'') v)
      else v)"

definition font_checks :: "string \<Rightarrow> jsval \<Rightarrow> validation \<Rightarrow> validation" where
  "font_checks elementName element v =
     (if elementName \<in> set [''fnsku'', ''sku'', ''title''] then
        check (not_number_or_le (js_get element ''fontSize'') 0)
          (''Element '' @ elementName @ '' fontSize must be a positive number'') v
      else v)"

text \<open>The callback of \<^verbatim>\<open>Object.entries(template.elements).forEach\<close>.\<close>

definition validate_element :: "string \<Rightarrow> jsval \<Rightarrow> validation \<Rightarrow> error + validation" where
  "validate_element elementName element v =
     (if js_typeof element \<noteq> ''object'' then
        Inr (push_error (''Element '' @ elementName @ '' must be an object'') v)
      else if js_nullish element then Inl TypeError
      else
        Inr (font_checks elementName element
               (size_checks elementName element
                  (position_checks elementName element v))))"

fun validate_elements :: "props \<Rightarrow> validation \<Rightarrow> error + validation" where
  "validate_elements [] v = Inr v"
| "validate_elements ((elementName, element) # rest) v =
     (case validate_element elementName element v of
        Inl e \<Rightarrow> Inl e
      | Inr v' \<Rightarrow> validate_elements rest v')"

fun name_blank :: "jsval \<Rightarrow> bool" where
  "name_blank (JStr s) = (length (js_trim s) = 0)"
| "name_blank v = False"

definition orientation_message :: string where
  "orientation_message =
     ''Template orientation must be '' @ [CHR 0x22] @ ''portrait'' @ [CHR 0x22] @ '' or ''
       @ [CHR 0x22] @ ''landscape'' @ [CHR 0x22]"

text \<open>The block \<^verbatim>\<open>// Required fields\<close>: name, width, height and orientation.\<close>

definition required_fields :: "jsval \<Rightarrow> validation" where
  "required_fields template =
     (let name = js_get template ''name'';
          width = js_get template ''width'';
          height = js_get template ''height'';
          orientation = js_get template ''orientation'';
          v0 = \<lparr>isValid = True, errors = []\<rparr>;
          v1 = check (\<not> js_truthy name \<or> js_typeof name \<noteq> ''string'' \<or> name_blank name)
                 ''Template name is required'' v0;
          v2 = check (\<not> js_truthy width \<or> not_number_or_le width 0)
                 ''Template width must be a positive number'' v1;
          v3 = check (\<not> js_truthy height \<or> not_number_or_le height 0)
                 ''Template height must be a positive number'' v2
      in check (\<not> js_truthy orientation
                \<or> orientation \<notin> set [JStr ''portrait'', JStr ''landscape''])
           orientation_message v3)"

text \<open>The block \<^verbatim>\<open>// Elements validation\<close>.\<close>

definition elements_validation :: "jsval \<Rightarrow> validation \<Rightarrow> error + validation" where
  "elements_validation elements v =
     (if \<not> js_truthy elements \<or> js_typeof elements \<noteq> ''object'' then
        Inr (push_error ''Template elements are required'' v)
      else
        validate_elements (own_props elements)
          (check (\<not> js_truthy (js_get elements ''barcode'')
                  \<and> \<not> js_truthy (js_get elements ''fnsku''))
             ''Template must include at least barcode or FNSKU element'' v))"

text \<open>The block \<^verbatim>\<open>// Content inclusion validation\<close>.\<close>

definition content_inclusion_validation :: "jsval \<Rightarrow> validation \<Rightarrow> validation" where
  "content_inclusion_validation contentInclusion v =
     check (\<not> js_truthy contentInclusion \<or> js_typeof contentInclusion \<noteq> ''object'')
       ''Template contentInclusion is required'' v"

text \<open>
  \<^verbatim>\<open>validateTemplate\<close>: the three blocks in turn, then the warnings, of which the read
  \<^verbatim>\<open>template.name.length\<close> is kept.
\<close>

definition validateTemplate :: "jsval \<Rightarrow> error + validation" where
  "validateTemplate template =
     (if js_nullish template then Inl TypeError
      else
        case elements_validation (js_get template ''elements'') (required_fields template) of
          Inl e \<Rightarrow> Inl e
        | Inr v \<Rightarrow>
            if js_nullish (js_get template ''name'') then Inl TypeError
            else Inr (content_inclusion_validation (js_get template ''contentInclusion'') v))"

subsection \<open>Reads\<close>

text \<open>
  A read \<^verbatim>\<open>v[k]\<close> raises on null and undefined; a write \<^verbatim>\<open>v[k] = x\<close> raises on those and, in
  the strict mode of a class body, on every primitive; \<^verbatim>\<open>delete v[k]\<close> raises in strict
  mode on the indexed characters of a string. A write with the key \<^verbatim>\<open>__proto__\<close> to an
  object that has no own property of that name would replace the prototype; the model
  has no prototypes to replace and is used with other keys only.
\<close>

definition js_read :: "jsval \<Rightarrow> string \<Rightarrow> error + jsval" where
  "js_read v k = (if js_nullish v then Inl TypeError else Inr (js_get v k))"

fun js_set :: "jsval \<Rightarrow> string \<Rightarrow> jsval \<Rightarrow> error + jsval" where
  "js_set (JObj kvs) k x = Inr (JObj (AList.update k x kvs))"
| "js_set (JInherited f) k x = Inr (JInherited f)"
| "js_set v k x = Inl TypeError"

fun js_delete :: "jsval \<Rightarrow> string \<Rightarrow> error + jsval" where
  "js_delete (JObj kvs) k = Inr (JObj (AList.delete k kvs))"
| "js_delete (JStr s) k =
     (if k \<in> fst ` set (own_props (JStr s)) then Inl TypeError else Inr (JStr s))"
| "js_delete JUndefined k = Inl TypeError"
| "js_delete JNull k = Inl TypeError"
| "js_delete v k = Inr v"

text \<open>\<^verbatim>\<open>getTemplate\<close>: built-ins first, then user templates; a shallow copy or \<^verbatim>\<open>null\<close>.\<close>

definition getTemplate :: "string \<Rightarrow> tm_state \<Rightarrow> (error + jsval) \<times> tm_state" where
  "getTemplate templateId s0 =
     (let s = tm_ensureInitialized s0;
          b = js_get (JObj (builtInTemplates s)) templateId
      in if js_truthy b then (Inr (JObj (js_spread b)), s)
         else
           case js_read (userTemplates s) templateId of
             Inl e \<Rightarrow> (Inl e, s)
           | Inr u \<Rightarrow> if js_truthy u then (Inr (JObj (js_spread u)), s) else (Inr JNull, s))"

definition isBuiltInTemplate :: "string \<Rightarrow> tm_state \<Rightarrow> bool" where
  "isBuiltInTemplate templateId s = js_truthy (js_get (JObj (builtInTemplates s)) templateId)"

subsection \<open>Mutations\<close>

text \<open>
  What \<^verbatim>\<open>createTemplate\<close> reads from its environment: \<^verbatim>\<open>Date.now()\<close>, the nine characters
  it cuts out of \<^verbatim>\<open>Math.random().toString(36)\<close>, and the two \<^verbatim>\<open>new Date().toISOString()\<close>.
\<close>

record id_source =
  date_now :: nat
  random_part :: string
  created_iso :: string
  updated_iso :: string

definition fresh_id :: "id_source \<Rightarrow> string" where
  "fresh_id src = ''user_'' @ string_of_nat (date_now src) @ ''_'' @ random_part src"

text \<open>
  The literal \<^verbatim>\<open>{ id: templateId, userCreated: true, createdAt: ..., updatedAt: ...,
  ...templateData }\<close> of \<^verbatim>\<open>createTemplate\<close>: the spread comes last.
\<close>

definition created_template :: "id_source \<Rightarrow> jsval \<Rightarrow> props" where
  "created_template src templateData =
     obj_assign
       [(''id'', JStr (fresh_id src)),
        (''userCreated'', JBool True),
        (''createdAt'', JStr (created_iso src)),
        (''updatedAt'', JStr (updated_iso src))]
       (js_spread templateData)"

text \<open>The four fields of a template that the store is meant to own.\<close>

definition template_stamp :: "jsval \<Rightarrow> jsval \<times> jsval \<times> jsval \<times> jsval" where
  "template_stamp t =
     (js_get t ''id'', js_get t ''userCreated'', js_get t ''createdAt'', js_get t ''updatedAt'')"

definition createTemplate :: "id_source \<Rightarrow> jsval \<Rightarrow> tm_state \<Rightarrow> (error + jsval) \<times> tm_state" where
  "createTemplate src templateData s0 =
     (let s = tm_ensureInitialized s0 in
      case validateTemplate templateData of
        Inl e \<Rightarrow> (Inl e, s)
      | Inr validation \<Rightarrow>
          if \<not> isValid validation then (Inl (ValidationError (errors validation)), s)
          else
            let templateId = fresh_id src;
                template = JObj (created_template src templateData)
            in
              case js_set (userTemplates s) templateId template of
                Inl e \<Rightarrow> (Inl e, s)
              | Inr ut \<Rightarrow>
                  (case saveUserTemplates (s\<lparr>userTemplates := ut\<rparr>) of
                     (Inl e, s') \<Rightarrow> (Inl e, s')
                   | (Inr u, s') \<Rightarrow>
                       (Inr (JObj (js_spread template)),
                        tm_emit ''templateCreated'' template s')))"

text \<open>
  The literal \<^verbatim>\<open>{ ...existing, ...templateData, id: templateId, userCreated: true,
  updatedAt: now }\<close> of \<^verbatim>\<open>updateTemplate\<close>.
\<close>

definition merged_update :: "string \<Rightarrow> string \<Rightarrow> jsval \<Rightarrow> jsval \<Rightarrow> props" where
  "merged_update now templateId existing templateData =
     AList.update ''updatedAt'' (JStr now)
       (AList.update ''userCreated'' (JBool True)
         (AList.update ''id'' (JStr templateId)
           (obj_assign (obj_assign [] (js_spread existing)) (js_spread templateData))))"

definition updateTemplate :: "string \<Rightarrow> string \<Rightarrow> jsval \<Rightarrow> tm_state \<Rightarrow> (error + jsval) \<times> tm_state" where
  "updateTemplate now templateId templateData s0 =
     (let s = tm_ensureInitialized s0 in
      case js_read (userTemplates s) templateId of
        Inl e \<Rightarrow> (Inl e, s)
      | Inr existing \<Rightarrow>
          if \<not> js_truthy existing then
            (Inl (NotFoundOrImmutable ''Template not found or cannot be modified''), s)
          else
            case validateTemplate templateData of
              Inl e \<Rightarrow> (Inl e, s)
            | Inr validation \<Rightarrow>
                if \<not> isValid validation then (Inl (ValidationError (errors validation)), s)
                else
                  let updatedTemplate =
                        JObj (merged_update now templateId existing templateData)
                  in
                    case js_set (userTemplates s) templateId updatedTemplate of
                      Inl e \<Rightarrow> (Inl e, s)
                    | Inr ut \<Rightarrow>
                        (case saveUserTemplates (s\<lparr>userTemplates := ut\<rparr>) of
                           (Inl e, s') \<Rightarrow> (Inl e, s')
                         | (Inr u, s') \<Rightarrow>
                             (Inr (JObj (js_spread updatedTemplate)),
                              tm_emit ''templateUpdated'' updatedTemplate s')))"

definition deleteTemplate :: "string \<Rightarrow> tm_state \<Rightarrow> (error + bool) \<times> tm_state" where
  "deleteTemplate templateId s0 =
     (let s = tm_ensureInitialized s0 in
      case js_read (userTemplates s) templateId of
        Inl e \<Rightarrow> (Inl e, s)
      | Inr existing \<Rightarrow>
          if \<not> js_truthy existing then
            (Inl (NotFoundOrImmutable ''Template not found or cannot be deleted''), s)
          else
            let template = JObj (js_spread existing) in
              case js_delete (userTemplates s) templateId of
                Inl e \<Rightarrow> (Inl e, s)
              | Inr ut \<Rightarrow>
                  (case saveUserTemplates (s\<lparr>userTemplates := ut\<rparr>) of
                     (Inl e, s') \<Rightarrow> (Inl e, s')
                   | (Inr u, s') \<Rightarrow> (Inr True, tm_emit ''templateDeleted'' template s')))"

definition clearUserTemplates :: "tm_state \<Rightarrow> (error + bool) \<times> tm_state" where
  "clearUserTemplates s0 =
     (let s = tm_ensureInitialized s0;
          deletedTemplates = JObj (js_spread (userTemplates s))
      in case saveUserTemplates (s\<lparr>userTemplates := JObj []\<rparr>) of
           (Inl e, s') \<Rightarrow> (Inl e, s')
         | (Inr u, s') \<Rightarrow> (Inr True, tm_emit ''templatesCleared'' deletedTemplates s'))"

subsection \<open>Reachable states\<close>

text \<open>
  The states a manager can be in: constructed over a backend in which nobody has written
  \<^verbatim>\<open>fnsku_user_templates\<close> yet (this class is the only writer of that key in the
  repository), then driven through its public methods with any arguments, constructed
  again over the storage it left behind, with other components writing other keys and
  the backend failing or not at will. \<^verbatim>\<open>importTemplate\<close> only calls \<^verbatim>\<open>createTemplate\<close>.
  \<^verbatim>\<open>updateTemplate\<close> is taken with ids other than \<^verbatim>\<open>__proto__\<close>, see \<open>js_set\<close>.
\<close>

inductive tm_reachable :: "tm_state \<Rightarrow> bool" where
  fresh: "map_of (kv b) ''fnsku_user_templates'' = None \<Longrightarrow> tm_reachable (tm_new b)"
| restart: "tm_reachable s \<Longrightarrow> tm_reachable (tm_new (tm_storage s))"
| init: "tm_reachable s \<Longrightarrow> tm_reachable (tm_init s)"
| get: "tm_reachable s \<Longrightarrow> tm_reachable (snd (getTemplate templateId s))"
| create: "tm_reachable s \<Longrightarrow> tm_reachable (snd (createTemplate src templateData s))"
| update: "tm_reachable s \<Longrightarrow> templateId \<noteq> ''__proto__'' \<Longrightarrow>
           tm_reachable (snd (updateTemplate now templateId templateData s))"
| delete: "tm_reachable s \<Longrightarrow> tm_reachable (snd (deleteTemplate templateId s))"
| clear: "tm_reachable s \<Longrightarrow> tm_reachable (snd (clearUserTemplates s))"
| foreign: "tm_reachable s \<Longrightarrow> k \<noteq> ''fnsku_user_templates'' \<Longrightarrow>
            tm_reachable
              (s\<lparr>tm_storage := (tm_storage s)\<lparr>kv := AList.update k x (kv (tm_storage s))\<rparr>\<rparr>)"
| weather: "tm_reachable s \<Longrightarrow>
            tm_reachable (s\<lparr>tm_storage := (tm_storage s)\<lparr>faults := fs\<rparr>\<rparr>)"

text \<open>The invariant of the reachable states: no built-in id is a key of the user store.\<close>

definition builtin_ids :: "string list" where
  "builtin_ids = map fst builtin_templates"

definition user_store_ok :: "jsval \<Rightarrow> bool" where
  "user_store_ok v =
     (case v of JObj ut \<Rightarrow> list_all (\<lambda>i. map_of ut i = None) builtin_ids | _ \<Rightarrow> False)"

definition tm_inv :: "tm_state \<Rightarrow> bool" where
  "tm_inv s =
     (builtInTemplates s = builtin_templates \<and> user_store_ok (userTemplates s)
      \<and> (case map_of (kv (tm_storage s)) ''fnsku_user_templates'' of
            None \<Rightarrow> True
          | Some v \<Rightarrow> user_store_ok v))"

text \<open>A validation result that reports failure with at least one message.\<close>

definition rejected :: "validation \<Rightarrow> bool" where
  "rejected v = (\<not> isValid v \<and> errors v \<noteq> [])"

section \<open>SettingsManager\<close>

subsection \<open>Strict equality\<close>

text \<open>
  \<^verbatim>\<open>a === b\<close>: primitives compare by type and value, \<open>NaN\<close> equals nothing, and two objects
  are equal when they are one object. A value of the model does not say which object it
  is, so a comparison takes the relation \<open>same_object\<close> that answers this for two object
  operands.
\<close>

fun js_strict_eq :: "(jsval \<Rightarrow> jsval \<Rightarrow> bool) \<Rightarrow> jsval \<Rightarrow> jsval \<Rightarrow> bool" where
  "js_strict_eq same_object JUndefined JUndefined = True"
| "js_strict_eq same_object JNull JNull = True"
| "js_strict_eq same_object (JBool a) (JBool b) = (a = b)"
| "js_strict_eq same_object (JNum (Fin a)) (JNum (Fin b)) = (a = b)"
| "js_strict_eq same_object (JStr a) (JStr b) = (a = b)"
| "js_strict_eq same_object (JObj a) (JObj b) = same_object (JObj a) (JObj b)"
| "js_strict_eq same_object (JInherited a) (JInherited b) = (a = b)"
| "js_strict_eq same_object a b = False"

subsection \<open>State\<close>

text \<open>
  The fields of the class, the events emitted, the backend, and the part of the event
  loop the class talks to: \<open>timers\<close> are the handles that \<^verbatim>\<open>setTimeout\<close> has scheduled and
  that have neither fired nor been cleared, \<open>next_timer\<close> is the next handle it returns
  (handles are positive), and \<open>in_flight\<close> is the argument of a
  \<^verbatim>\<open>chrome.storage.sync.set\<close> call that has been issued and not yet settled.
\<close>

record sm_state =
  settings :: props
  saveTimeout :: "nat option"
  saving :: bool
  sm_initialized :: bool
  sm_events :: "(string \<times> jsval) list"
  sm_storage :: backend
  in_flight :: "props option"
  timers :: "nat list"
  next_timer :: nat

definition default_global_settings :: props where
  "default_global_settings =
     [(''barcodeFormat'', JStr ''CODE128''),
      (''autoExtract'', JBool True),
      (''autoOpenTabs'', JBool False),
      (''debugMode'', JBool False),
      (''lastSelectedTab'', JStr ''downloads'')]"

definition sm_new :: "string \<Rightarrow> backend \<Rightarrow> sm_state" where
  "sm_new created b =
     \<lparr>settings =
        [(''selectedTemplateId'', JStr ''thermal_57x32''),
         (''globalSettings'', JObj default_global_settings),
         (''lastUpdated'', JStr created)],
      saveTimeout = None, saving = False, sm_initialized = False, sm_events = [],
      sm_storage = b, in_flight = None, timers = [], next_timer = 1\<rparr>"

definition sm_emit :: "string \<Rightarrow> jsval \<Rightarrow> sm_state \<Rightarrow> sm_state" where
  "sm_emit ev payload s = s\<lparr>sm_events := sm_events s @ [(ev, payload)]\<rparr>"

subsection \<open>Saving\<close>

text \<open>
  \<^verbatim>\<open>saveSettings\<close> in two steps, so that the time between the call of
  \<^verbatim>\<open>chrome.storage.sync.set\<close> and its answer is a state. \<open>save_begin\<close> runs up to the
  \<^verbatim>\<open>await\<close>; \<open>save_settle\<close> is the answer arriving: the event, the \<^verbatim>\<open>finally\<close> block, and the
  error thrown to whoever awaits. The payload of \<^verbatim>\<open>settingsSaveError\<close> is the backend's
  error object, written \<open>JStr ''StorageError''\<close>.
\<close>

definition save_begin :: "sm_state \<Rightarrow> sm_state" where
  "save_begin s =
     (if saving s then s
      else s\<lparr>saving := True,
             in_flight := Some [(''fnsku_extension_settings'', JObj (settings s))]\<rparr>)"

definition save_settle :: "sm_state \<Rightarrow> (error + unit) \<times> sm_state" where
  "save_settle s =
     (case in_flight s of
        None \<Rightarrow> (Inr (), s)
      | Some items \<Rightarrow>
          (case storage_set items (sm_storage s) of
             (Inr u, b) \<Rightarrow>
               (Inr (),
                (sm_emit ''settingsSaved'' (JObj (settings s)) (s\<lparr>sm_storage := b\<rparr>))
                  \<lparr>saving := False, in_flight := None\<rparr>)
           | (Inl e, b) \<Rightarrow>
               (Inl e,
                (sm_emit ''settingsSaveError'' (JStr ''StorageError'') (s\<lparr>sm_storage := b\<rparr>))
                  \<lparr>saving := False, in_flight := None\<rparr>)))"

text \<open>\<^verbatim>\<open>await this.saveSettings()\<close> with nothing else running before the answer.\<close>

definition saveSettings :: "sm_state \<Rightarrow> (error + unit) \<times> sm_state" where
  "saveSettings s = (if saving s then (Inr (), s) else save_settle (save_begin s))"

text \<open>\<^verbatim>\<open>if (this.saveTimeout) clearTimeout(this.saveTimeout)\<close>: a handle is truthy unless 0.\<close>

definition clear_pending :: "sm_state \<Rightarrow> sm_state" where
  "clear_pending s =
     (case saveTimeout s of
        None \<Rightarrow> s
      | Some h \<Rightarrow> if h \<noteq> 0 then s\<lparr>timers := removeAll h (timers s)\<rparr> else s)"

definition debouncedSave :: "sm_state \<Rightarrow> sm_state" where
  "debouncedSave s =
     (let s1 = clear_pending s;
          h = next_timer s1;
          s2 = s1\<lparr>saveTimeout := Some h, timers := timers s1 @ [h], next_timer := Suc h\<rparr>
      in sm_emit ''settingsSaving'' (JBool True) s2)"

text \<open>
  The event loop runs the callback of a pending timer: the callback awaits
  \<^verbatim>\<open>saveSettings\<close> and logs what it throws. It assigns nothing to \<^verbatim>\<open>this.saveTimeout\<close>.
\<close>

definition timer_fire :: "nat \<Rightarrow> sm_state \<Rightarrow> sm_state" where
  "timer_fire h s =
     (if h \<in> set (timers s) then save_begin (s\<lparr>timers := removeAll h (timers s)\<rparr>) else s)"

definition isSaving :: "sm_state \<Rightarrow> bool" where
  "isSaving s = (saving s \<or> saveTimeout s \<noteq> None)"

definition forceSave :: "sm_state \<Rightarrow> (error + unit) \<times> sm_state" where
  "forceSave s =
     saveSettings
       (case saveTimeout s of
          None \<Rightarrow> s
        | Some h \<Rightarrow> if h \<noteq> 0 then (clear_pending s)\<lparr>saveTimeout := None\<rparr> else s)"

subsection \<open>Loading and migration\<close>

text \<open>\<^verbatim>\<open>this.settings.globalSettings[k] = x\<close>.\<close>

definition set_global :: "string \<Rightarrow> jsval \<Rightarrow> props \<Rightarrow> error + props" where
  "set_global k x st =
     (case js_set (js_get (JObj st) ''globalSettings'') k x of
        Inl e \<Rightarrow> Inl e
      | Inr gs \<Rightarrow> Inr (AList.update ''globalSettings'' gs st))"

text \<open>
  Settings whose \<^verbatim>\<open>globalSettings\<close> is an object, so that assigning one of its fields does
  not throw. The constructor's settings are of this shape and migration keeps it.
\<close>

definition has_global :: "props \<Rightarrow> bool" where
  "has_global st = (case map_of st ''globalSettings'' of Some (JObj gs) \<Rightarrow> True | _ \<Rightarrow> False)"

text \<open>
  The block that copies the fields of the legacy object \<^verbatim>\<open>fnskuLabelSettings\<close>. It returns
  the error if an assignment raised, the settings as they are at that point, and the flag
  \<^verbatim>\<open>migrated\<close>.
\<close>

definition migrate_label_settings :: "jsval \<Rightarrow> props \<Rightarrow> error option \<times> props \<times> bool" where
  "migrate_label_settings oldSettings st0 =
     (let templateId = js_get oldSettings ''templateId'';
          barcodeFormat = js_get oldSettings ''barcodeFormat'';
          autoExtract = js_get oldSettings ''autoExtract'';
          autoOpenTabs = js_get oldSettings ''autoOpenTabs'';
          debugMode = js_get oldSettings ''debugMode'';
          st1 = (if js_truthy templateId then AList.update ''selectedTemplateId'' templateId st0
                 else st0);
          m1 = js_truthy templateId
      in
        case (if js_truthy barcodeFormat then set_global ''barcodeFormat'' barcodeFormat st1
              else Inr st1) of
          Inl e \<Rightarrow> (Some e, st1, m1)
        | Inr st2 \<Rightarrow>
            (let m2 = (m1 \<or> js_truthy barcodeFormat) in
             case (if js_typeof autoExtract \<noteq> ''undefined''
                   then set_global ''autoExtract'' autoExtract st2 else Inr st2) of
               Inl e \<Rightarrow> (Some e, st2, m2)
             | Inr st3 \<Rightarrow>
                 (let m3 = (m2 \<or> js_typeof autoExtract \<noteq> ''undefined'') in
                  case (if js_typeof autoOpenTabs \<noteq> ''undefined''
                        then set_global ''autoOpenTabs'' autoOpenTabs st3 else Inr st3) of
                    Inl e \<Rightarrow> (Some e, st3, m3)
                  | Inr st4 \<Rightarrow>
                      (let m4 = (m3 \<or> js_typeof autoOpenTabs \<noteq> ''undefined'') in
                       case (if js_typeof debugMode \<noteq> ''undefined''
                             then set_global ''debugMode'' debugMode st4 else Inr st4) of
                         Inl e \<Rightarrow> (Some e, st4, m4)
                       | Inr st5 \<Rightarrow>
                           (None, st5, m4 \<or> js_typeof debugMode \<noteq> ''undefined'')))))"

text \<open>
  The block that reads the other legacy object, \<^verbatim>\<open>extensionSettings.labelSettings\<close>: its
  template id overwrites the one copied before. It returns the settings and \<^verbatim>\<open>migrated\<close>.
\<close>

definition migrate_extension_settings :: "jsval \<Rightarrow> props \<Rightarrow> bool \<Rightarrow> props \<times> bool" where
  "migrate_extension_settings extensionSettings st m =
     (if js_truthy extensionSettings \<and> js_truthy (js_get extensionSettings ''labelSettings'')
      then
        let template = js_get (js_get extensionSettings ''labelSettings'') ''template'' in
        if js_truthy template then (AList.update ''selectedTemplateId'' template st, True)
        else (st, m)
      else (st, m))"

text \<open>
  The block \<^verbatim>\<open>if (migrated)\<close>: stamp, save, and only after a save that did not throw remove
  the legacy keys; a failed removal is only logged. A save that throws leaves through the
  outer \<^verbatim>\<open>catch\<close>.
\<close>

definition persist_migration :: "string \<Rightarrow> sm_state \<Rightarrow> sm_state" where
  "persist_migration now s =
     (case saveSettings (s\<lparr>settings := AList.update ''lastUpdated'' (JStr now) (settings s)\<rparr>) of
        (Inl e, s2) \<Rightarrow> s2
      | (Inr u, s2) \<Rightarrow>
          (case storage_remove [''fnskuLabelSettings'', ''extensionSettings''] (sm_storage s2) of
             (r, b') \<Rightarrow> s2\<lparr>sm_storage := b'\<rparr>))"

definition migrateOldSettings :: "string \<Rightarrow> sm_state \<Rightarrow> sm_state" where
  "migrateOldSettings now s =
     (case storage_get [''fnskuLabelSettings'', ''extensionSettings''] (sm_storage s) of
        (Inl e, b) \<Rightarrow> s\<lparr>sm_storage := b\<rparr>
      | (Inr oldResult, b) \<Rightarrow>
          (let fnskuLabelSettings = js_get (JObj oldResult) ''fnskuLabelSettings'';
               extensionSettings = js_get (JObj oldResult) ''extensionSettings''
           in
             case (if js_truthy fnskuLabelSettings
                   then migrate_label_settings fnskuLabelSettings (settings s)
                   else (None, settings s, False)) of
               (Some e, st, m) \<Rightarrow> s\<lparr>sm_storage := b, settings := st\<rparr>
             | (None, st, m) \<Rightarrow>
                 (case migrate_extension_settings extensionSettings st m of
                    (st', migrated) \<Rightarrow>
                      if migrated then persist_migration now (s\<lparr>sm_storage := b, settings := st'\<rparr>)
                      else s\<lparr>sm_storage := b, settings := st'\<rparr>)))"

definition loadSettings :: "string \<Rightarrow> sm_state \<Rightarrow> sm_state" where
  "loadSettings now s =
     (case storage_get [''fnsku_extension_settings''] (sm_storage s) of
        (Inl e, b) \<Rightarrow> s\<lparr>sm_storage := b\<rparr>
      | (Inr result, b) \<Rightarrow>
          (let stored = js_get (JObj result) ''fnsku_extension_settings'' in
           if js_truthy stored then
             s\<lparr>settings := obj_assign (js_spread (JObj (settings s))) (js_spread stored),
               sm_storage := b\<rparr>
           else migrateOldSettings now (s\<lparr>sm_storage := b\<rparr>)))"

definition sm_init :: "string \<Rightarrow> sm_state \<Rightarrow> sm_state" where
  "sm_init now s =
     (if sm_initialized s then s
      else
        let s1 = (loadSettings now s)\<lparr>sm_initialized := True\<rparr>
        in sm_emit ''initialized'' (JObj (settings s1)) s1)"

definition sm_ensureInitialized :: "string \<Rightarrow> sm_state \<Rightarrow> sm_state" where
  "sm_ensureInitialized now s = (if \<not> sm_initialized s then sm_init now s else s)"

subsection \<open>Reads and updates\<close>

text \<open>
  Each method first awaits \<^verbatim>\<open>ensureInitialized\<close>; \<open>t0\<close> is the time a migration run by it
  would stamp, \<open>now\<close> the time the method itself stamps.
\<close>

definition getSettings :: "string \<Rightarrow> sm_state \<Rightarrow> jsval \<times> sm_state" where
  "getSettings t0 s0 =
     (let s = sm_ensureInitialized t0 s0 in (JObj (js_spread (JObj (settings s))), s))"

definition setSelectedTemplateId ::
  "(jsval \<Rightarrow> jsval \<Rightarrow> bool) \<Rightarrow> string \<Rightarrow> string \<Rightarrow> jsval \<Rightarrow> sm_state \<Rightarrow> sm_state" where
  "setSelectedTemplateId same_object t0 now templateId s0 =
     (let s = sm_ensureInitialized t0 s0 in
      if \<not> js_strict_eq same_object (js_get (JObj (settings s)) ''selectedTemplateId'') templateId
      then
        let s1 = s\<lparr>settings := AList.update ''lastUpdated'' (JStr now)
                     (AList.update ''selectedTemplateId'' templateId (settings s))\<rparr>;
            s2 = sm_emit ''templateSelected'' templateId s1;
            s3 = sm_emit ''settingsChanged'' (JObj (settings s2)) s2
        in debouncedSave s3
      else s)"

text \<open>\<^verbatim>\<open>Object.keys(v)\<close> raises on null and undefined.\<close>

definition object_keys :: "jsval \<Rightarrow> error + string list" where
  "object_keys v = (if js_nullish v then Inl TypeError else Inr (map fst (own_props v)))"

fun any_key_differs ::
  "(jsval \<Rightarrow> jsval \<Rightarrow> bool) \<Rightarrow> jsval \<Rightarrow> jsval \<Rightarrow> string list \<Rightarrow> bool" where
  "any_key_differs same_object oldSettings newSettings [] = False"
| "any_key_differs same_object oldSettings newSettings (key # keys) =
     (if \<not> js_strict_eq same_object (js_get oldSettings key) (js_get newSettings key) then True
      else any_key_differs same_object oldSettings newSettings keys)"

definition hasSettingsChanges ::
  "(jsval \<Rightarrow> jsval \<Rightarrow> bool) \<Rightarrow> jsval \<Rightarrow> jsval \<Rightarrow> error + bool" where
  "hasSettingsChanges same_object oldSettings newSettings =
     (case object_keys oldSettings of
        Inl e \<Rightarrow> Inl e
      | Inr oldKeys \<Rightarrow>
          (case object_keys newSettings of
             Inl e \<Rightarrow> Inl e
           | Inr newKeys \<Rightarrow>
               if length oldKeys \<noteq> length newKeys then Inr True
               else Inr (any_key_differs same_object oldSettings newSettings newKeys)))"

definition updateGlobalSettings ::
  "(jsval \<Rightarrow> jsval \<Rightarrow> bool) \<Rightarrow> string \<Rightarrow> string \<Rightarrow> jsval \<Rightarrow> sm_state
     \<Rightarrow> (error + unit) \<times> sm_state" where
  "updateGlobalSettings same_object t0 now newSettings s0 =
     (let s = sm_ensureInitialized t0 s0;
          globalSettings = js_get (JObj (settings s)) ''globalSettings''
      in
        case hasSettingsChanges same_object globalSettings newSettings of
          Inl e \<Rightarrow> (Inl e, s)
        | Inr hasChanges \<Rightarrow>
            if hasChanges then
              let merged = JObj (obj_assign (js_spread globalSettings) (js_spread newSettings));
                  s1 = s\<lparr>settings := AList.update ''lastUpdated'' (JStr now)
                           (AList.update ''globalSettings'' merged (settings s))\<rparr>;
                  s2 = sm_emit ''globalSettingsChanged'' merged s1;
                  s3 = sm_emit ''settingsChanged'' (JObj (settings s2)) s2
              in (Inr (), debouncedSave s3)
            else (Inr (), s))"

section \<open>PDFLabelGenerator\<close>

subsection \<open>Collaborators and coercions\<close>

text \<open>
  What the generator calls and does not own.
  \<^item> \<open>encode_barcode data format\<close>: \<^verbatim>\<open>JsBarcode\<close> drawing on a canvas and
    \<^verbatim>\<open>canvas.toDataURL\<close>; \<open>None\<close> when it throws, which \<^verbatim>\<open>generateBarcode\<close> turns into a
    rejection.
  \<^item> \<open>load_image page url\<close>: \<^verbatim>\<open>loadImage\<close> for the label of index \<open>page\<close>; \<open>None\<close> when
    it rejects.
  \<^item> \<open>string_to_number\<close> and \<open>to_string\<close>: the engine's conversions of a string to a
    number and of a value that is not a string to a string.
  An object that shadows \<^verbatim>\<open>toString\<close> or \<^verbatim>\<open>valueOf\<close> is outside the model.
\<close>

record collaborators =
  encode_barcode :: "jsval \<Rightarrow> jsval \<Rightarrow> jsval option"
  load_image :: "nat \<Rightarrow> jsval \<Rightarrow> jsval option"
  string_to_number :: "string \<Rightarrow> jsnumber"
  to_string :: "jsval \<Rightarrow> string"

definition js_string :: "collaborators \<Rightarrow> jsval \<Rightarrow> string" where
  "js_string env v = (case v of JStr s \<Rightarrow> s | _ \<Rightarrow> to_string env v)"

fun to_primitive :: "collaborators \<Rightarrow> jsval \<Rightarrow> jsval" where
  "to_primitive env (JObj kvs) = JStr ''[object Object]''"
| "to_primitive env (JInherited k) = JStr (to_string env (JInherited k))"
| "to_primitive env v = v"

fun to_number :: "collaborators \<Rightarrow> jsval \<Rightarrow> jsnumber" where
  "to_number env (JNum n) = n"
| "to_number env JUndefined = NaN"
| "to_number env JNull = Fin 0"
| "to_number env (JBool b) = Fin (if b then 1 else 0)"
| "to_number env (JStr s) = string_to_number env s"
| "to_number env (JObj kvs) = string_to_number env ''[object Object]''"
| "to_number env (JInherited k) = string_to_number env (to_string env (JInherited k))"

fun num_minus :: "jsnumber \<Rightarrow> rat \<Rightarrow> jsnumber" where
  "num_minus NaN c = NaN"
| "num_minus (Fin r) c = Fin (r - c)"

text \<open>\<^verbatim>\<open>a <= b\<close>: two strings compare by their characters, anything else as numbers.\<close>

fun str_le :: "string \<Rightarrow> string \<Rightarrow> bool" where
  "str_le [] ys = True"
| "str_le (x # xs) [] = False"
| "str_le (x # xs) (y # ys) =
     ((of_char x :: nat) < of_char y \<or> (x = y \<and> str_le xs ys))"

definition js_le :: "collaborators \<Rightarrow> jsval \<Rightarrow> jsval \<Rightarrow> bool" where
  "js_le env a b =
     (case (to_primitive env a, to_primitive env b) of
        (JStr x, JStr y) \<Rightarrow> str_le x y
      | (pa, pb) \<Rightarrow>
          (case (to_number env pa, to_number env pb) of
             (Fin x, Fin y) \<Rightarrow> x \<le> y
           | _ \<Rightarrow> False))"

text \<open>\<^verbatim>\<open>a?.k\<close>.\<close>

definition js_opt_get :: "jsval \<Rightarrow> string \<Rightarrow> jsval" where
  "js_opt_get v k = (if js_nullish v then JUndefined else js_get v k)"

subsection \<open>The document\<close>

text \<open>
  The jsPDF document as the generator drives it: the options of the constructor, the
  title set by \<^verbatim>\<open>setProperties\<close>, and the pages, each the list of what was drawn on it. A
  new document has one empty page; \<^verbatim>\<open>addPage\<close> appends one and drawing goes to the last.
  \<open>AddImage data format x y width height\<close> is \<^verbatim>\<open>doc.addImage\<close>. \<open>RenderText text element\<close>
  is the call \<^verbatim>\<open>renderText(doc, text, element)\<close>, whose body only sets the font, scales
  the size to the width jsPDF measures, and writes the text. jsPDF is taken to accept
  what it is given.
\<close>

datatype instr =
    AddImage jsval string jsval jsval jsval jsval
  | RenderText jsval props

record pdf_doc =
  doc_orientation :: jsval
  doc_format :: "jsval \<times> jsval"
  doc_title :: string
  pages :: "instr list list"

definition addPage :: "instr list list \<Rightarrow> instr list list" where
  "addPage ps = ps @ [[]]"

fun draw :: "instr list list \<Rightarrow> instr list \<Rightarrow> instr list list" where
  "draw [] drawn = [drawn]"
| "draw [p] drawn = [p @ drawn]"
| "draw (p # ps) drawn = p # draw ps drawn"

subsection \<open>Rendering one label\<close>

text \<open>
  \<^verbatim>\<open>truncateText\<close>. The text is a string when it comes from a template literal; a title
  that is not a string has no \<^verbatim>\<open>substring\<close> method, and calling it raises.
\<close>

definition truncateText :: "collaborators \<Rightarrow> jsval \<Rightarrow> jsval \<Rightarrow> error + jsval" where
  "truncateText env text maxLength =
     (if \<not> js_truthy text \<or> js_le env (js_get text ''length'') maxLength then Inr text
      else
        case text of
          JStr s \<Rightarrow>
            Inr (JStr (take (case num_minus (to_number env maxLength) 3 of
                               NaN \<Rightarrow> 0
                             | Fin r \<Rightarrow> nat \<lfloor>r\<rfloor>) s @ ''...''))
        | _ \<Rightarrow> Inl TypeError)"

text \<open>The copy \<^verbatim>\<open>{ ...element }\<close> with the font size of the configuration, if it has one.\<close>

definition sized_element :: "props \<Rightarrow> string \<Rightarrow> jsval \<Rightarrow> props" where
  "sized_element config field element =
     (let fontSize = js_get (JObj config) ''fontSize'' in
      if js_truthy fontSize \<and> js_truthy (js_get fontSize field)
      then AList.update ''fontSize'' (js_get fontSize field) (js_spread element)
      else js_spread element)"

definition condition_text :: "props \<Rightarrow> jsval \<Rightarrow> jsval" where
  "condition_text productData conditionSettings =
     js_or (js_get (JObj productData) ''condition'')
       (js_or (js_get conditionSettings ''text'') (JStr ''NEW''))"

definition render_barcode :: "jsval \<Rightarrow> jsval \<Rightarrow> jsval \<Rightarrow> instr list" where
  "render_barcode elements contentInclusion barcodeDataURL =
     (let e = js_get elements ''barcode'' in
      if js_truthy e \<and> js_truthy barcodeDataURL
         \<and> js_get contentInclusion ''barcode'' \<noteq> JBool False
      then [AddImage barcodeDataURL ''PNG'' (js_get e ''x'') (js_get e ''y'')
              (js_get e ''width'') (js_get e ''height'')]
      else [])"

definition render_fnsku :: "jsval \<Rightarrow> jsval \<Rightarrow> props \<Rightarrow> props \<Rightarrow> instr list" where
  "render_fnsku elements contentInclusion productData config =
     (let e = js_get elements ''fnsku'' in
      if js_truthy e \<and> js_get contentInclusion ''fnsku'' \<noteq> JBool False
      then [RenderText (js_get (JObj productData) ''fnsku'') (sized_element config ''fnsku'' e)]
      else [])"

definition render_sku ::
  "collaborators \<Rightarrow> jsval \<Rightarrow> jsval \<Rightarrow> props \<Rightarrow> props \<Rightarrow> instr list" where
  "render_sku env elements contentInclusion productData config =
     (let e = js_get elements ''sku''; sku = js_get (JObj productData) ''sku'' in
      if js_truthy e \<and> js_truthy sku \<and> js_get contentInclusion ''sku'' \<noteq> JBool False
      then [RenderText (JStr (''SKU: '' @ js_string env sku)) (sized_element config ''sku'' e)]
      else [])"

definition render_title ::
  "collaborators \<Rightarrow> jsval \<Rightarrow> jsval \<Rightarrow> jsval \<Rightarrow> props \<Rightarrow> props \<Rightarrow> error + instr list" where
  "render_title env elements contentInclusion conditionSettings productData config =
     (let e = js_get elements ''title''; title = js_get (JObj productData) ''title'' in
      if js_truthy e \<and> js_truthy title \<and> js_get contentInclusion ''title'' \<noteq> JBool False
      then
        let titleElement = sized_element config ''title'' e;
            titleText =
              (if js_get conditionSettings ''enabled'' \<noteq> JBool False
                  \<and> js_get conditionSettings ''position'' = JStr ''title-prefix''
                  \<and> js_get contentInclusion ''condition'' \<noteq> JBool False
               then JStr (js_string env (condition_text productData conditionSettings)
                          @ '' - '' @ js_string env title)
               else title)
        in
          case truncateText env titleText
                 (js_or (js_get (JObj titleElement) ''maxLength'') (num 50)) of
            Inl err \<Rightarrow> Inl err
          | Inr truncated \<Rightarrow> Inr [RenderText truncated titleElement]
      else Inr [])"

definition render_condition ::
  "collaborators \<Rightarrow> jsval \<Rightarrow> jsval \<Rightarrow> jsval \<Rightarrow> jsval \<Rightarrow> props \<Rightarrow> props \<Rightarrow> instr list" where
  "render_condition env template elements contentInclusion conditionSettings productData config =
     (let e = js_get elements ''condition''; position = js_get conditionSettings ''position'' in
      if js_truthy e \<and> js_get contentInclusion ''condition'' \<noteq> JBool False
         \<and> js_get conditionSettings ''enabled'' \<noteq> JBool False
         \<and> (\<not> js_truthy position \<or> position \<noteq> JStr ''title-prefix'')
      then
        let sized = sized_element config ''condition'' e;
            conditionElement =
              (if position = JStr ''bottom-right''
               then AList.update ''x''
                      (JNum (num_minus (to_number env (js_get template ''width'')) 2))
                      (AList.update ''align'' (JStr ''right'') sized)
               else sized)
        in [RenderText (condition_text productData conditionSettings) conditionElement]
      else [])"

definition render_image ::
  "collaborators \<Rightarrow> nat \<Rightarrow> jsval \<Rightarrow> jsval \<Rightarrow> props \<Rightarrow> instr list" where
  "render_image env page elements contentInclusion productData =
     (let e = js_get elements ''image''; image = js_get (JObj productData) ''image'' in
      if js_truthy e \<and> js_truthy (js_get contentInclusion ''images'') \<and> js_truthy image
      then
        (case load_image env page image of
           None \<Rightarrow> []
         | Some imageData \<Rightarrow>
             [AddImage imageData ''JPEG'' (js_get e ''x'') (js_get e ''y'')
                (js_get e ''width'') (js_get e ''height'')])
      else [])"

text \<open>
  \<^verbatim>\<open>renderLabel\<close>, for the label of index \<open>page\<close>: what it draws, or the error it raises. The
  first read \<^verbatim>\<open>elements.barcode\<close> raises when the template has no \<^verbatim>\<open>elements\<close>.
\<close>

definition renderLabel ::
  "collaborators \<Rightarrow> nat \<Rightarrow> jsval \<Rightarrow> props \<Rightarrow> jsval \<Rightarrow> props \<Rightarrow> error + instr list" where
  "renderLabel env page template productData barcodeDataURL config =
     (let elements = js_get template ''elements'';
          contentInclusion =
            js_or (js_get (JObj config) ''contentInclusion'')
              (js_or (js_get template ''contentInclusion'') (JObj []));
          conditionSettings =
            js_or (js_get (JObj config) ''conditionSettings'')
              (js_or (js_get template ''conditionSettings'') (JObj []))
      in
        if js_nullish elements then Inl TypeError
        else
          case render_title env elements contentInclusion conditionSettings productData config of
            Inl err \<Rightarrow> Inl err
          | Inr title \<Rightarrow>
              Inr (render_barcode elements contentInclusion barcodeDataURL
                   @ render_fnsku elements contentInclusion productData config
                   @ render_sku env elements contentInclusion productData config
                   @ title
                   @ render_condition env template elements contentInclusion conditionSettings
                       productData config
                   @ render_image env page elements contentInclusion productData))"

subsection \<open>Generating the labels\<close>

text \<open>\<^verbatim>\<open>i < quantity\<close> for the loop counter: false for \<open>NaN\<close>.\<close>

fun counter_below :: "nat \<Rightarrow> jsnumber \<Rightarrow> bool" where
  "counter_below i NaN = False"
| "counter_below i (Fin r) = (of_nat i < r)"

text \<open>The loop \<^verbatim>\<open>for (let i = 0; i < quantity; i++)\<close> from counter \<open>i\<close> on.\<close>

function render_pages ::
  "collaborators \<Rightarrow> jsval \<Rightarrow> props \<Rightarrow> jsval \<Rightarrow> props \<Rightarrow> jsnumber \<Rightarrow> nat \<Rightarrow> instr list list
     \<Rightarrow> error + instr list list" where
  "render_pages env template productData barcodeDataURL config quantity i ps =
     (if counter_below i quantity then
        (case renderLabel env i template productData barcodeDataURL config of
           Inl err \<Rightarrow> Inl err
         | Inr drawn \<Rightarrow>
             render_pages env template productData barcodeDataURL config quantity (Suc i)
               (draw (if 0 < i then addPage ps else ps) drawn))
      else Inr ps)"
  by pat_completeness auto
termination
proof (relation "measure (\<lambda>(env, template, productData, barcodeDataURL, config, quantity, i, ps).
                    case quantity of NaN \<Rightarrow> 0 | Fin r \<Rightarrow> nat \<lceil>r\<rceil> - i)")
  show "wf (measure (\<lambda>(env, template, productData, barcodeDataURL, config, quantity, i, ps).
                    case quantity of NaN \<Rightarrow> 0 | Fin r \<Rightarrow> nat \<lceil>r\<rceil> - i))"
    by simp
next
  fix env :: collaborators and template :: jsval and productData :: props
    and barcodeDataURL :: jsval and config :: props and quantity :: jsnumber and i :: nat
    and ps :: "instr list list" and drawn :: "instr list"
  assume below: "counter_below i quantity"
  then obtain r where q: "quantity = Fin r" and lt: "of_nat i < r"
    by (cases quantity) auto
  have "of_nat i < (of_int \<lceil>r\<rceil> :: rat)"
    using lt le_of_int_ceiling [of r] by linarith
  then have "int i < \<lceil>r\<rceil>"
    by (metis of_int_less_iff of_int_of_nat_eq)
  then have "nat \<lceil>r\<rceil> - Suc i < nat \<lceil>r\<rceil> - i"
    by linarith
  then show "((env, template, productData, barcodeDataURL, config, quantity, Suc i,
               draw (if 0 < i then addPage ps else ps) drawn),
              (env, template, productData, barcodeDataURL, config, quantity, i, ps))
             \<in> measure (\<lambda>(env, template, productData, barcodeDataURL, config, quantity, i, ps).
                    case quantity of NaN \<Rightarrow> 0 | Fin r \<Rightarrow> nat \<lceil>r\<rceil> - i)"
    using q by simp
qed

declare render_pages.simps [simp del]

text \<open>
  The result of \<^verbatim>\<open>generateLabels\<close>: the document or the error, the calls made to the barcode
  encoder, and the two managers as the call leaves them.
\<close>

record generation =
  outcome :: "error + pdf_doc"
  encoder_calls :: "(jsval \<times> jsval) list"
  gen_templates :: tm_state
  gen_settings :: sm_state

text \<open>
  \<^verbatim>\<open>generateLabels(productData, quantity, settings)\<close> on a generator that holds both
  managers (\<^verbatim>\<open>ensureTemplateManager\<close> and \<^verbatim>\<open>ensureSettingsManager\<close> construct and
  initialise them otherwise). \<open>productData\<close> and \<open>settings\<close> are objects and \<open>quantity\<close> is
  a number; the defaults \<open>1\<close> and \<^verbatim>\<open>{}\<close> of absent arguments are the caller's. \<open>t0\<close> is the
  time a migration run by the first read of the settings would stamp.
  \<open>active_template_id\<close> is the chain \<^verbatim>\<open>settings.templateId || currentSettings.selectedTemplateId
  || 'thermal_57x32'\<close>.
\<close>

definition active_template_id :: "props \<Rightarrow> jsval \<Rightarrow> jsval" where
  "active_template_id settingsArg currentSettings =
     js_or (js_get (JObj settingsArg) ''templateId'')
       (js_or (js_get currentSettings ''selectedTemplateId'') (JStr ''thermal_57x32''))"

text \<open>The block that merges the global condition settings with the template's.\<close>

definition merged_condition_settings :: "jsval \<Rightarrow> jsval \<Rightarrow> jsval" where
  "merged_condition_settings globalSettings template =
     (let globalConditionSettings =
            js_or (js_get globalSettings ''conditionSettings'') (JObj []);
          templateConditionSettings =
            js_or (js_get template ''conditionSettings'') (JObj [])
      in JObj
           [(''enabled'',
             if js_get globalConditionSettings ''enabled'' \<noteq> JUndefined
             then js_get globalConditionSettings ''enabled''
             else JBool (js_get templateConditionSettings ''enabled'' \<noteq> JBool False)),
            (''text'',
             js_or (js_get globalConditionSettings ''text'')
               (js_or (js_get templateConditionSettings ''text'') (JStr ''NEW''))),
            (''position'',
             js_or (js_get globalConditionSettings ''position'')
               (js_or (js_get templateConditionSettings ''position'')
                  (JStr ''bottom-left'')))])"

text \<open>
  The object \<^verbatim>\<open>config\<close>: the generator's \<^verbatim>\<open>defaultSettings\<close>, the fields computed from
  the settings and the template, and last the spread of the \<^verbatim>\<open>settings\<close> argument.
\<close>

definition label_config :: "jsval \<Rightarrow> jsval \<Rightarrow> props \<Rightarrow> props" where
  "label_config globalSettings template settingsArg =
     (let overrides = js_get globalSettings ''fontSizeOverrides'';
          elements = js_get template ''elements'';
          fontSize = (\<lambda>field fallback.
            js_or (js_opt_get overrides field)
              (js_or (js_opt_get (js_opt_get elements field) ''fontSize'')
                 (num fallback)))
      in obj_assign
           [(''barcodeFormat'',
             js_or (js_get globalSettings ''barcodeFormat'') (JStr ''CODE128'')),
            (''includeImage'', JBool False),
            (''margin'', num 2),
            (''contentInclusion'',
             js_or (js_get template ''contentInclusion'')
               (JObj [(''barcode'', JBool True), (''fnsku'', JBool True),
                      (''sku'', JBool True), (''title'', JBool True),
                      (''images'', JBool False), (''condition'', JBool True)])),
            (''fontSize'', JObj
               [(''fnsku'', fontSize ''fnsku'' 8), (''sku'', fontSize ''sku'' 11),
                (''title'', fontSize ''title'' 6),
                (''condition'', fontSize ''condition'' 5)]),
            (''conditionSettings'', merged_condition_settings globalSettings template)]
           (js_spread (JObj settingsArg)))"

text \<open>The new jsPDF document with its properties set.\<close>

definition new_document :: "collaborators \<Rightarrow> jsval \<Rightarrow> props \<Rightarrow> pdf_doc" where
  "new_document env template productData =
     \<lparr>doc_orientation = js_get template ''orientation'',
      doc_format = (js_get template ''width'', js_get template ''height''),
      doc_title = ''FNSKU Label - ''
        @ js_string env (js_or (js_get (JObj productData) ''sku'')
                           (js_get (JObj productData) ''fnsku'')),
      pages = [[]]\<rparr>"

text \<open>
  The format \<^verbatim>\<open>generateBarcode\<close> is called with, \<^verbatim>\<open>config.barcodeFormat\<close>; its default
  parameter \<^verbatim>\<open>format = 'CODE128'\<close> replaces \<^verbatim>\<open>undefined\<close>.
\<close>

definition barcode_format :: "props \<Rightarrow> jsval" where
  "barcode_format config =
     (if js_get (JObj config) ''barcodeFormat'' = JUndefined
      then JStr ''CODE128'' else js_get (JObj config) ''barcodeFormat'')"

definition generateLabels ::
  "collaborators \<Rightarrow> string \<Rightarrow> props \<Rightarrow> jsnumber \<Rightarrow> props \<Rightarrow> tm_state \<Rightarrow> sm_state \<Rightarrow> generation" where
  "generateLabels env t0 productData quantity settingsArg tm0 sm0 =
     (let (currentSettings, sm) = getSettings t0 sm0;
          globalSettings = js_or (js_get currentSettings ''globalSettings'') (JObj []);
          templateId = active_template_id settingsArg currentSettings;
          (found, tm) = getTemplate (js_string env templateId) tm0;
          failed = (\<lambda>e. \<lparr>outcome = Inl e, encoder_calls = [], gen_templates = tm,
                          gen_settings = sm\<rparr>)
      in
        case found of
          Inl e \<Rightarrow> failed e
        | Inr template \<Rightarrow>
            if \<not> js_truthy template then failed (TemplateNotFound templateId)
            else if \<not> js_truthy (js_get (JObj productData) ''fnsku'')
            then failed MissingRequiredField
            else
              let config = label_config globalSettings template settingsArg;
                  doc = new_document env template productData;
                  data = js_get (JObj productData) ''fnsku'';
                  format = barcode_format config
              in
                case encode_barcode env data format of
                  None \<Rightarrow> (failed EncodingError)\<lparr>encoder_calls := [(data, format)]\<rparr>
                | Some barcodeDataURL \<Rightarrow>
                    \<lparr>outcome =
                       (case render_pages env template productData barcodeDataURL config
                               quantity 0 (pages doc) of
                          Inl e \<Rightarrow> Inl e
                        | Inr ps \<Rightarrow> Inr (doc\<lparr>pages := ps\<rparr>)),
                     encoder_calls = [(data, format)],
                     gen_templates = tm, gen_settings = sm\<rparr>)"

text \<open>
  What is read back from a document: the data of the barcode images on a page (the
  barcode is added as \<^verbatim>\<open>'PNG'\<close>, the product image as \<^verbatim>\<open>'JPEG'\<close>), and the number of
  times the loop body runs for a quantity.
\<close>

fun png_data :: "instr \<Rightarrow> jsval list" where
  "png_data (AddImage imageData format x y w h) = (if format = ''PNG'' then [imageData] else [])"
| "png_data (RenderText text element) = []"

definition barcode_rasters :: "instr list \<Rightarrow> jsval list" where
  "barcode_rasters page = concat (map png_data page)"


section \<open>Sample inputs\<close>

text \<open>Concrete values at which the theorems below are instantiated.\<close>

definition empty_backend :: backend where
  "empty_backend = \<lparr>kv = [], faults = [], calls = []\<rparr>"

definition demo_template :: jsval where
  "demo_template = JObj
     [(''name'', JStr ''Shelf''),
      (''width'', num 50),
      (''height'', num 25),
      (''orientation'', JStr ''landscape''),
      (''elements'', JObj
         [(''barcode'', JObj [(''x'', num 5), (''y'', num 2), (''width'', num 40),
                              (''height'', num 10)]),
          (''fnsku'', JObj [(''x'', num 25), (''y'', num 15), (''fontSize'', num 8)])]),
      (''contentInclusion'', JObj [(''barcode'', JBool True), (''fnsku'', JBool True)])]"

definition demo_user_template :: jsval where
  "demo_user_template = JObj (obj_assign
     [(''id'', JStr ''user_1_abc''), (''userCreated'', JBool True)]
     (js_spread demo_template))"

definition demo_store :: tm_state where
  "demo_store =
     (tm_new empty_backend)
       \<lparr>userTemplates := JObj [(''user_1_abc'', demo_user_template)],
        tm_initialized := True\<rparr>"

definition hostile_payload :: jsval where
  "hostile_payload = JObj (obj_assign
     [(''id'', JStr ''thermal_57x32''), (''userCreated'', JBool False),
      (''createdAt'', JStr ''1999-12-31T00:00:00.000Z''),
      (''updatedAt'', JStr ''1999-12-31T00:00:00.000Z'')]
     (js_spread demo_template))"

definition demo_source :: id_source where
  "demo_source =
     \<lparr>date_now = 1717200000000, random_part = ''k3j9x0a1b'',
      created_iso = ''2024-06-01T00:00:00.000Z'', updated_iso = ''2024-06-01T00:00:00.000Z''\<rparr>"

definition nameless_template :: jsval where
  "nameless_template = JObj
     [(''width'', num 0),
      (''height'', num 25),
      (''orientation'', JStr ''landscape''),
      (''elements'', JObj
         [(''barcode'', JObj [(''x'', num 5), (''y'', num 2), (''width'', num 40),
                              (''height'', num 10)])]),
      (''contentInclusion'', JObj [(''barcode'', JBool True)])]"

definition distinct_objects :: "jsval \<Rightarrow> jsval \<Rightarrow> bool" where
  "distinct_objects a b = False"

definition ready_settings :: sm_state where
  "ready_settings =
     sm_init ''2025-01-01T00:00:00.000Z'' (sm_new ''2025-01-01T00:00:00.000Z'' empty_backend)"

text \<open>
  The backend as the earlier version of the extension leaves it: \<^verbatim>\<open>handleInstallation\<close> of
  the background script writes \<^verbatim>\<open>fnskuLabelSettings\<close>, \<^verbatim>\<open>extensionEnabled\<close> and
  \<^verbatim>\<open>installDate\<close>, and \<^verbatim>\<open>saveConfigurationSettings\<close> of the content script rewrites
  \<^verbatim>\<open>fnskuLabelSettings\<close> with the same fields. The template id is the field \<^verbatim>\<open>template\<close>;
  here the user has chosen \<^verbatim>\<open>shipping_4x6\<close>.
\<close>

definition legacy_backend :: backend where
  "legacy_backend =
     \<lparr>kv = [(''fnskuLabelSettings'', JObj
               [(''template'', JStr ''shipping_4x6''),
                (''customWidth'', num 57),
                (''customHeight'', num 32),
                (''barcodeFormat'', JStr ''CODE128''),
                (''includeImage'', JBool False),
                (''fontSize'', JObj [(''fnsku'', num 8), (''sku'', num 11), (''title'', num 6)])]),
             (''extensionEnabled'', JBool True),
             (''installDate'', JStr ''2024-01-01T00:00:00.000Z'')],
      faults = [], calls = []\<rparr>"

text \<open>
  Collaborators whose encoder always answers with the same raster, and a record with a
  title longer than the built-in template's \<^verbatim>\<open>maxLength\<close> leaves to be seen.
\<close>

definition demo_env :: collaborators where
  "demo_env =
     \<lparr>encode_barcode = (\<lambda>data format. Some (JStr ''data:image/png;base64,iVBORw0KGgo='')),
      load_image = (\<lambda>page url. None),
      string_to_number = (\<lambda>s. NaN),
      to_string = (\<lambda>v. ''[object Object]'')\<rparr>"

definition demo_record :: props where
  "demo_record =
     [(''fnsku'', JStr ''X001ABC123''), (''sku'', JStr ''SKU-1''),
      (''asin'', JStr ''B000000001''), (''title'', JStr ''Widget'')]"

definition record_without_fnsku :: props where
  "record_without_fnsku = [(''sku'', JStr ''X'')]"

section \<open>Facts about values and objects\<close>

lemma js_get_JObj:
  "js_get (JObj kvs) k =
     (case map_of kvs k of
        Some x \<Rightarrow> x
      | None \<Rightarrow> if k \<in> set object_prototype_names then JInherited k else JUndefined)"
  by (simp add: js_get_def map_of_clearjunk split: option.splits)

lemma js_get_update_same: "js_get (JObj (AList.update k x kvs)) k = x"
  by (simp add: js_get_JObj update_conv')

lemma js_get_update_other:
  "k' \<noteq> k \<Longrightarrow> js_get (JObj (AList.update k x kvs)) k' = js_get (JObj kvs) k'"
  by (simp add: js_get_JObj update_conv')

lemma distinct_obj_assign:
  "distinct (map fst base) \<Longrightarrow> distinct (map fst (obj_assign base src))"
  unfolding obj_assign_def
  by (induction src arbitrary: base) (auto simp: distinct_update)

lemma map_of_obj_assign:
  "distinct (map fst src) \<Longrightarrow>
   map_of (obj_assign base src) k =
     (case map_of src k of Some x \<Rightarrow> Some x | None \<Rightarrow> map_of base k)"
  unfolding obj_assign_def
proof (induction src arbitrary: base)
  case Nil
  then show ?case by simp
next
  case (Cons p src)
  obtain a b where p: "p = (a, b)" by (cases p)
  from Cons.prems p have na: "a \<notin> fst ` set src" and d: "distinct (map fst src)" by auto
  have "map_of src a = None" using na by (simp add: map_of_eq_None_iff)
  then show ?case using Cons.IH [OF d, of "AList.update a b base"] p
    by (auto simp: update_conv' split: option.splits)
qed

lemma map_of_pick_keys:
  "map_of (pick_keys keys xs) k = (if k \<in> set keys then map_of xs k else None)"
  unfolding pick_keys_def by (induction xs) auto

lemma map_of_drop_keys:
  "map_of (drop_keys keys xs) k = (if k \<in> set keys then None else map_of xs k)"
  unfolding drop_keys_def by (induction xs) auto

lemma map_of_storage_update:
  "map_of (obj_assign kvs [(k, x)]) k' = (if k' = k then Some x else map_of kvs k')"
  by (simp add: obj_assign_def update_conv')

section \<open>TemplateManager: built-in templates cannot be changed\<close>

lemma builtin_ids_eval:
  "builtin_ids = [''thermal_57x32'', ''thermal_57x32_minimal'', ''shipping_4x6'']"
  by (simp add: builtin_ids_def builtin_templates_def)

lemma fresh_id_not_builtin: "fresh_id src \<notin> set builtin_ids"
  by (simp add: builtin_ids_eval fresh_id_def)

lemma builtin_not_inherited: "i \<in> set builtin_ids \<Longrightarrow> i \<notin> set object_prototype_names"
  by (auto simp: builtin_ids_eval object_prototype_names_def)

lemma user_store_ok_empty: "user_store_ok (JObj [])"
  by (simp add: user_store_ok_def list_all_iff)

lemma user_store_ok_update:
  "user_store_ok (JObj ut) \<Longrightarrow> k \<notin> set builtin_ids \<Longrightarrow>
   user_store_ok (JObj (AList.update k x ut))"
  by (auto simp: user_store_ok_def list_all_iff update_conv')

lemma user_store_ok_delete:
  "user_store_ok (JObj ut) \<Longrightarrow> user_store_ok (JObj (AList.delete k ut))"
  by (auto simp: user_store_ok_def list_all_iff delete_conv')

lemma user_store_ok_falsy:
  "user_store_ok v \<Longrightarrow> i \<in> set builtin_ids \<Longrightarrow> \<not> js_truthy (js_get v i)"
  by (auto simp: user_store_ok_def list_all_iff js_get_JObj builtin_not_inherited
      split: jsval.splits)

lemma user_store_ok_truthy_key:
  "user_store_ok v \<Longrightarrow> js_truthy (js_get v k) \<Longrightarrow> k \<notin> set builtin_ids"
  using user_store_ok_falsy by blast

lemma user_store_ok_obj: "user_store_ok v \<Longrightarrow> \<exists>ut. v = JObj ut"
  by (auto simp: user_store_ok_def split: jsval.splits)

lemma tm_inv_save: "tm_inv s \<Longrightarrow> saveUserTemplates s = (r, s') \<Longrightarrow> tm_inv s'"
  by (auto simp: tm_inv_def saveUserTemplates_def storage_set_def log_call_def
      map_of_storage_update split: option.splits if_splits)

lemma tm_inv_emit: "tm_inv (tm_emit ev p s) = tm_inv s"
  by (simp add: tm_inv_def tm_emit_def)

lemma tm_inv_set_store:
  "tm_inv s \<Longrightarrow> user_store_ok v \<Longrightarrow> tm_inv (s\<lparr>userTemplates := v\<rparr>)"
  by (simp add: tm_inv_def)

lemma tm_inv_store: "tm_inv s \<Longrightarrow> user_store_ok (userTemplates s)"
  by (simp add: tm_inv_def)

lemma tm_inv_load:
  assumes i: "tm_inv s"
  shows "tm_inv (loadUserTemplates s)"
proof (cases "next_fault (tm_storage s)")
  case True
  then show ?thesis using i
    by (simp add: loadUserTemplates_def storage_get_def tm_inv_def log_call_def
        user_store_ok_empty)
next
  case False
  have g: "js_get (JObj (pick_keys [''fnsku_user_templates'']
                           (AList.clearjunk (kv (tm_storage s)))))
             ''fnsku_user_templates''
           = (case map_of (kv (tm_storage s)) ''fnsku_user_templates'' of
                Some v \<Rightarrow> v
              | None \<Rightarrow> JUndefined)"
    by (simp add: js_get_JObj map_of_pick_keys map_of_clearjunk object_prototype_names_def
        split: option.splits)
  show ?thesis using i False
    by (auto simp: loadUserTemplates_def storage_get_def g tm_inv_def log_call_def js_or_def
        user_store_ok_empty split: option.splits)
qed

lemma tm_inv_init: "tm_inv s \<Longrightarrow> tm_inv (tm_init s)"
proof -
  assume i: "tm_inv s"
  have "tm_inv ((loadUserTemplates s)\<lparr>tm_initialized := True\<rparr>)"
    using tm_inv_load [OF i] by (simp add: tm_inv_def)
  then show ?thesis using i by (simp add: tm_init_def tm_inv_emit)
qed

lemma tm_inv_ensure: "tm_inv s \<Longrightarrow> tm_inv (tm_ensureInitialized s)"
  by (simp add: tm_ensureInitialized_def tm_inv_init)

lemma tm_inv_get: "tm_inv s \<Longrightarrow> tm_inv (snd (getTemplate templateId s))"
  by (auto simp: getTemplate_def Let_def tm_inv_ensure split: sum.splits)

lemma tm_inv_create: "tm_inv s \<Longrightarrow> tm_inv (snd (createTemplate src templateData s))"
proof -
  assume "tm_inv s"
  then have i: "tm_inv (tm_ensureInitialized s)" by (rule tm_inv_ensure)
  then obtain ut where ut: "userTemplates (tm_ensureInitialized s) = JObj ut"
    using user_store_ok_obj tm_inv_store by blast
  have ok: "user_store_ok (JObj (AList.update (fresh_id src) t ut))" for t
    using tm_inv_store [OF i] ut by (simp add: user_store_ok_update fresh_id_not_builtin)
  show ?thesis
    using i ut ok
    by (auto simp: createTemplate_def Let_def tm_inv_emit tm_inv_set_store
        split: sum.splits prod.splits dest!: tm_inv_save [rotated])
qed

lemma tm_inv_update:
  "tm_inv s \<Longrightarrow> tm_inv (snd (updateTemplate now templateId templateData s))"
proof -
  assume "tm_inv s"
  then have i: "tm_inv (tm_ensureInitialized s)" by (rule tm_inv_ensure)
  then obtain ut where ut: "userTemplates (tm_ensureInitialized s) = JObj ut"
    using user_store_ok_obj tm_inv_store by blast
  have ok: "js_truthy (js_get (JObj ut) templateId) \<Longrightarrow>
            user_store_ok (JObj (AList.update templateId t ut))" for t
    using tm_inv_store [OF i] ut user_store_ok_truthy_key [of "JObj ut" templateId]
    by (simp add: user_store_ok_update)
  show ?thesis
    using i ut ok
    by (auto simp: updateTemplate_def Let_def js_read_def tm_inv_emit tm_inv_set_store
        split: sum.splits prod.splits dest!: tm_inv_save [rotated])
qed

lemma tm_inv_delete: "tm_inv s \<Longrightarrow> tm_inv (snd (deleteTemplate templateId s))"
proof -
  assume "tm_inv s"
  then have i: "tm_inv (tm_ensureInitialized s)" by (rule tm_inv_ensure)
  then obtain ut where ut: "userTemplates (tm_ensureInitialized s) = JObj ut"
    using user_store_ok_obj tm_inv_store by blast
  have ok: "user_store_ok (JObj (AList.delete templateId ut))"
    using tm_inv_store [OF i] ut by (simp add: user_store_ok_delete)
  show ?thesis
    using i ut ok
    by (auto simp: deleteTemplate_def Let_def js_read_def tm_inv_emit tm_inv_set_store
        split: sum.splits prod.splits dest!: tm_inv_save [rotated])
qed

lemma tm_inv_clear: "tm_inv s \<Longrightarrow> tm_inv (snd (clearUserTemplates s))"
proof -
  assume "tm_inv s"
  then have i: "tm_inv (tm_ensureInitialized s)" by (rule tm_inv_ensure)
  show ?thesis
    using i
    by (auto simp: clearUserTemplates_def Let_def tm_inv_emit tm_inv_set_store
        user_store_ok_empty split: sum.splits prod.splits dest!: tm_inv_save [rotated])
qed

lemma tm_reachable_inv: "tm_reachable s \<Longrightarrow> tm_inv s"
proof (induction rule: tm_reachable.induct)
  case (fresh b)
  then show ?case by (simp add: tm_inv_def tm_new_def user_store_ok_empty)
next
  case (restart s)
  then show ?case by (simp add: tm_inv_def tm_new_def user_store_ok_empty)
next
  case (foreign s k x)
  then show ?case by (simp add: tm_inv_def update_conv')
next
  case (weather s fs)
  then show ?case by (simp add: tm_inv_def)
qed (simp_all add: tm_inv_init tm_inv_get tm_inv_create tm_inv_update tm_inv_delete
      tm_inv_clear)

text \<open>
  Claim C1. In every reachable state of the manager and for every id of a built-in
  template, \<^verbatim>\<open>updateTemplate\<close> and \<^verbatim>\<open>deleteTemplate\<close> fail with the error ``not found or
  cannot be modified (deleted)''. The call does nothing but the lazy initialisation every
  method starts with: on an initialised manager the state after the call is the state
  before it, so neither the built-in nor the user templates change, nothing is written
  and no event is emitted.
\<close>

theorem builtin_templates_immutable:
  assumes "tm_reachable s" and "templateId \<in> fst ` set (builtInTemplates s)"
  shows "updateTemplate now templateId templateData s =
           (Inl (NotFoundOrImmutable ''Template not found or cannot be modified''),
            tm_ensureInitialized s)
       \<and> deleteTemplate templateId s =
           (Inl (NotFoundOrImmutable ''Template not found or cannot be deleted''),
            tm_ensureInitialized s)
       \<and> builtInTemplates (tm_ensureInitialized s) = builtInTemplates s
       \<and> (if tm_initialized s then tm_ensureInitialized s = s
          else tm_ensureInitialized s = tm_init s)"
proof -
  have i0: "tm_inv s" using assms(1) by (rule tm_reachable_inv)
  then have i: "tm_inv (tm_ensureInitialized s)" by (rule tm_inv_ensure)
  have b: "templateId \<in> set builtin_ids"
    using assms(2) i0 by (simp add: tm_inv_def builtin_ids_def)
  obtain ut where ut: "userTemplates (tm_ensureInitialized s) = JObj ut"
    using user_store_ok_obj tm_inv_store [OF i] by blast
  have f: "\<not> js_truthy (js_get (JObj ut) templateId)"
    using user_store_ok_falsy [OF tm_inv_store [OF i] b] ut by simp
  have same: "builtInTemplates (tm_ensureInitialized s) = builtInTemplates s"
    using i i0 by (simp add: tm_inv_def)
  show ?thesis
    using ut f same
    by (simp add: updateTemplate_def deleteTemplate_def Let_def js_read_def
        tm_ensureInitialized_def)
qed

theorem builtin_templates_immutable_witness:
  "tm_reachable (tm_init (tm_new empty_backend))
   \<and> ''thermal_57x32'' \<in> fst ` set (builtInTemplates (tm_init (tm_new empty_backend)))
   \<and> updateTemplate ''2025-06-01T00:00:00.000Z'' ''thermal_57x32'' demo_template
        (tm_init (tm_new empty_backend)) =
        (Inl (NotFoundOrImmutable ''Template not found or cannot be modified''),
         tm_init (tm_new empty_backend))
   \<and> deleteTemplate ''thermal_57x32'' (tm_init (tm_new empty_backend)) =
        (Inl (NotFoundOrImmutable ''Template not found or cannot be deleted''),
         tm_init (tm_new empty_backend))"
proof -
  let ?s = "tm_init (tm_new empty_backend)"
  have r: "tm_reachable ?s"
    by (rule tm_reachable.init, rule tm_reachable.fresh) (simp add: empty_backend_def)
  have k: "''thermal_57x32'' \<in> fst ` set (builtInTemplates ?s)"
    by (simp add: tm_init_def tm_new_def tm_emit_def loadUserTemplates_def storage_get_def
        next_fault_def empty_backend_def builtin_templates_def)
  have e: "tm_ensureInitialized ?s = ?s"
    by (simp add: tm_ensureInitialized_def tm_init_def tm_new_def tm_emit_def)
  show ?thesis
    using r k builtin_templates_immutable [OF r k, of "''2025-06-01T00:00:00.000Z''" demo_template]
    by (simp only: e)
qed

section \<open>TemplateManager: updates keep the id and the user flag\<close>

lemma merged_update_distinct:
  "distinct (map fst (merged_update now templateId existing templateData))"
  by (simp add: merged_update_def distinct_update distinct_obj_assign)

lemma merged_update_spread:
  "js_spread (JObj (merged_update now templateId existing templateData)) =
     merged_update now templateId existing templateData"
  by (simp add: js_spread_def merged_update_distinct)

lemma merged_update_id:
  "js_get (JObj (merged_update now templateId existing templateData)) ''id'' = JStr templateId"
  by (simp add: merged_update_def js_get_update_other js_get_update_same)

lemma merged_update_userCreated:
  "js_get (JObj (merged_update now templateId existing templateData)) ''userCreated''
     = JBool True"
  by (simp add: merged_update_def js_get_update_other js_get_update_same)

lemma updateTemplate_accepted:
  assumes "tm_initialized s" "userTemplates s = JObj ut"
    and "map_of ut templateId = Some existing" "js_truthy existing"
    and "validateTemplate templateData = Inr v" "isValid v"
  shows "updateTemplate now templateId templateData s =
     (let t = JObj (merged_update now templateId existing templateData);
          s1 = s\<lparr>userTemplates := JObj (AList.update templateId t ut)\<rparr>
      in case saveUserTemplates s1 of
           (Inl e, s') \<Rightarrow> (Inl e, s')
         | (Inr u, s') \<Rightarrow> (Inr t, tm_emit ''templateUpdated'' t s'))"
  using assms
  by (simp add: updateTemplate_def tm_ensureInitialized_def js_read_def js_get_JObj
      merged_update_spread Let_def split: prod.splits sum.splits)

text \<open>
  Claim C10. For an id that is a key of the user store and a payload that validation
  accepts, the template that \<^verbatim>\<open>updateTemplate\<close> leaves in the store under that id has that
  id and \<^verbatim>\<open>userCreated = true\<close>, whatever the payload says about the two fields. When the
  write to the backend succeeds the call returns that same template; when it is rejected
  the call throws the backend's error and the store keeps the merged template.
\<close>

theorem updateTemplate_forces_id_and_userCreated:
  assumes "tm_initialized s" "userTemplates s = JObj ut"
    and "map_of ut templateId = Some existing" "js_truthy existing"
    and "validateTemplate templateData = Inr v" "isValid v"
  shows "(let (r, s') = updateTemplate now templateId templateData s;
              stored = js_get (userTemplates s') templateId
          in js_get stored ''id'' = JStr templateId
             \<and> js_get stored ''userCreated'' = JBool True
             \<and> (if next_fault (tm_storage s) then r = Inl StorageError else r = Inr stored))"
  unfolding updateTemplate_accepted [OF assms]
  by (simp add: saveUserTemplates_def storage_set_def tm_emit_def js_get_update_same
      merged_update_id merged_update_userCreated Let_def)

lemma hostile_payload_valid:
  "validateTemplate hostile_payload = Inr \<lparr>isValid = True, errors = []\<rparr>"
  by code_simp

theorem updateTemplate_forces_id_and_userCreated_witness:
  "tm_initialized demo_store
   \<and> js_truthy (js_get (userTemplates demo_store) ''user_1_abc'')
   \<and> js_get hostile_payload ''id'' = JStr ''thermal_57x32''
   \<and> js_get hostile_payload ''userCreated'' = JBool False
   \<and> (let (r, s') = updateTemplate ''2025-06-01T00:00:00.000Z'' ''user_1_abc'' hostile_payload
                       demo_store;
            stored = js_get (userTemplates s') ''user_1_abc''
        in js_get stored ''id'' = JStr ''user_1_abc''
           \<and> js_get stored ''userCreated'' = JBool True
           \<and> r = Inr stored)"
proof -
  have h1: "tm_initialized demo_store" by (simp add: demo_store_def)
  have h2: "userTemplates demo_store = JObj [(''user_1_abc'', demo_user_template)]"
    by (simp add: demo_store_def)
  have h3: "map_of [(''user_1_abc'', demo_user_template)] ''user_1_abc''
              = Some demo_user_template"
    by simp
  have h4: "js_truthy demo_user_template" by (simp add: demo_user_template_def)
  have h5: "isValid \<lparr>isValid = True, errors = []\<rparr>" by simp
  have nf: "\<not> next_fault (tm_storage demo_store)"
    by (simp add: demo_store_def tm_new_def empty_backend_def next_fault_def)
  have p1: "js_get hostile_payload ''id'' = JStr ''thermal_57x32''" by code_simp
  have p2: "js_get hostile_payload ''userCreated'' = JBool False" by code_simp
  have t: "js_truthy (js_get (userTemplates demo_store) ''user_1_abc'')"
    by (simp add: h2 js_get_JObj h4)
  show ?thesis
    using h1 t p1 p2 nf
      updateTemplate_forces_id_and_userCreated [OF h1 h2 h3 h4 hostile_payload_valid h5,
        of "''2025-06-01T00:00:00.000Z''"]
    by (simp add: Let_def split: prod.splits)
qed

section \<open>TemplateManager: what a created template keeps of the caller's data\<close>

lemma js_get_nullish: "js_nullish v \<Longrightarrow> js_get v k = JUndefined"
  by (cases v) (simp_all add: js_get_def)

lemma created_template_distinct: "distinct (map fst (created_template src templateData))"
  by (simp add: created_template_def distinct_obj_assign)

lemma created_template_spread:
  "js_spread (JObj (created_template src templateData)) = created_template src templateData"
  by (simp add: js_spread_def created_template_distinct)

lemma createTemplate_accepted:
  assumes "tm_initialized s" "userTemplates s = JObj ut"
    and "validateTemplate templateData = Inr v" "isValid v"
  shows "createTemplate src templateData s =
     (let t = JObj (created_template src templateData);
          s1 = s\<lparr>userTemplates := JObj (AList.update (fresh_id src) t ut)\<rparr>
      in case saveUserTemplates s1 of
           (Inl e, s') \<Rightarrow> (Inl e, s')
         | (Inr u, s') \<Rightarrow> (Inr t, tm_emit ''templateCreated'' t s'))"
  using assms
  by (simp add: createTemplate_def tm_ensureInitialized_def created_template_spread Let_def
      split: prod.splits sum.splits)

lemma createTemplate_raises:
  "validateTemplate templateData = Inl e \<Longrightarrow>
   createTemplate src templateData s = (Inl e, tm_ensureInitialized s)"
  by (simp add: createTemplate_def)

lemma createTemplate_invalid:
  "validateTemplate templateData = Inr v \<Longrightarrow> \<not> isValid v \<Longrightarrow>
   createTemplate src templateData s =
     (Inl (ValidationError (errors v)), tm_ensureInitialized s)"
  by (simp add: createTemplate_def)

lemma updateTemplate_raises:
  assumes "tm_initialized s" "js_truthy (js_get (userTemplates s) templateId)"
    and "validateTemplate templateData = Inl e"
  shows "updateTemplate now templateId templateData s = (Inl e, s)"
  using assms
  by (auto simp: updateTemplate_def tm_ensureInitialized_def js_read_def Let_def js_get_nullish)

lemma updateTemplate_invalid:
  assumes "tm_initialized s" "js_truthy (js_get (userTemplates s) templateId)"
    and "validateTemplate templateData = Inr v" "\<not> isValid v"
  shows "updateTemplate now templateId templateData s = (Inl (ValidationError (errors v)), s)"
  using assms
  by (auto simp: updateTemplate_def tm_ensureInitialized_def js_read_def Let_def js_get_nullish)

lemma demo_fresh_id: "fresh_id demo_source = ''user_1717200000000_k3j9x0a1b''"
  by (simp add: fresh_id_def demo_source_def string_of_nat.simps)

lemma hostile_stamp:
  "template_stamp (JObj (created_template demo_source hostile_payload)) =
     (JStr ''thermal_57x32'', JBool False, JStr ''1999-12-31T00:00:00.000Z'',
      JStr ''1999-12-31T00:00:00.000Z'')"
proof -
  have d: "distinct (map fst (js_spread hostile_payload))"
    by (simp add: js_spread_def hostile_payload_def)
  have m: "map_of (js_spread hostile_payload) ''id'' = Some (JStr ''thermal_57x32'')"
    "map_of (js_spread hostile_payload) ''userCreated'' = Some (JBool False)"
    "map_of (js_spread hostile_payload) ''createdAt'' = Some (JStr ''1999-12-31T00:00:00.000Z'')"
    "map_of (js_spread hostile_payload) ''updatedAt'' = Some (JStr ''1999-12-31T00:00:00.000Z'')"
    by code_simp+
  show ?thesis
    by (simp add: template_stamp_def js_get_JObj created_template_def map_of_obj_assign [OF d] m)
qed

text \<open>
  Claim C2, evaluated where it fails. The payload \<open>hostile_payload\<close> passes validation and
  carries \<^verbatim>\<open>id\<close>, \<^verbatim>\<open>userCreated\<close>, \<^verbatim>\<open>createdAt\<close> and \<^verbatim>\<open>updatedAt\<close> of its own.
  \<^verbatim>\<open>createTemplate\<close> spreads the payload after the four fields it sets, so the template it
  returns, and the one it stores under the generated key, carry the caller's id
  \<^verbatim>\<open>thermal_57x32\<close>, \<^verbatim>\<open>userCreated = false\<close> and the caller's timestamps.
\<close>

theorem createTemplate_keeps_caller_fields:
  "map_sum id template_stamp (fst (createTemplate demo_source hostile_payload demo_store))
     = Inr (JStr ''thermal_57x32'', JBool False, JStr ''1999-12-31T00:00:00.000Z'',
            JStr ''1999-12-31T00:00:00.000Z'')
   \<and> template_stamp (js_get (userTemplates (snd (createTemplate demo_source hostile_payload
                                                   demo_store))) (fresh_id demo_source))
     = (JStr ''thermal_57x32'', JBool False, JStr ''1999-12-31T00:00:00.000Z'',
        JStr ''1999-12-31T00:00:00.000Z'')"
proof -
  have h1: "tm_initialized demo_store" by (simp add: demo_store_def)
  have h2: "userTemplates demo_store = JObj [(''user_1_abc'', demo_user_template)]"
    by (simp add: demo_store_def)
  have h5: "isValid \<lparr>isValid = True, errors = []\<rparr>" by simp
  have nf: "\<not> next_fault (tm_storage demo_store)"
    by (simp add: demo_store_def tm_new_def empty_backend_def next_fault_def)
  show ?thesis
    unfolding createTemplate_accepted [OF h1 h2 hostile_payload_valid h5]
    using nf
    by (simp add: Let_def saveUserTemplates_def storage_set_def tm_emit_def demo_fresh_id
        js_get_JObj hostile_stamp)
qed

section \<open>TemplateManager: what validation rejects\<close>

lemma rejected_push: "rejected (push_error msg v)"
  by (simp add: rejected_def push_error_def)

lemma rejected_check_bad: "bad \<Longrightarrow> rejected (check bad msg v)"
  by (simp add: check_def rejected_push)

lemma rejected_check_keep: "rejected v \<Longrightarrow> rejected (check bad msg v)"
  by (simp add: check_def rejected_push)

lemma rejected_position: "rejected v \<Longrightarrow> rejected (position_checks n e v)"
  unfolding position_checks_def by (intro rejected_check_keep)

lemma rejected_size: "rejected v \<Longrightarrow> rejected (size_checks n e v)"
  unfolding size_checks_def by (simp only: if_split [of rejected] rejected_check_keep simp_thms)

lemma rejected_font: "rejected v \<Longrightarrow> rejected (font_checks n e v)"
  unfolding font_checks_def by (simp only: if_split [of rejected] rejected_check_keep simp_thms)

lemma rejected_element:
  assumes "validate_element n e v = Inr v'" and r: "rejected v"
  shows "rejected v'"
proof (cases "js_typeof e \<noteq> ''object''")
  case True
  then have "v' = push_error (''Element '' @ n @ '' must be an object'') v"
    using assms(1) unfolding validate_element_def by simp
  then show ?thesis by (simp only: rejected_push)
next
  case False
  show ?thesis
  proof (cases "js_nullish e")
    case True
    then show ?thesis using assms(1) False unfolding validate_element_def
      by simp
  next
    case n: False
    have "v' = font_checks n e (size_checks n e (position_checks n e v))"
      using assms(1) False n unfolding validate_element_def
      by simp
    then show ?thesis
      by (simp only: rejected_font rejected_size rejected_position r)
  qed
qed

lemma rejected_elements:
  "validate_elements es v = Inr v' \<Longrightarrow> rejected v \<Longrightarrow> rejected v'"
proof (induction es arbitrary: v)
  case Nil
  then show ?case by simp
next
  case (Cons p es)
  obtain n e where p: "p = (n, e)" by (cases p)
  from Cons.prems(1) p obtain v1 where
    v1: "validate_element n e v = Inr v1" and rest: "validate_elements es v1 = Inr v'"
    by (cases "validate_element n e v") simp_all
  from rejected_element [OF v1 Cons.prems(2)] have "rejected v1" .
  from Cons.IH [OF rest this] show ?case .
qed

lemma rejected_required_width:
  "not_number_or_le (js_get t ''width'') 0 \<Longrightarrow> rejected (required_fields t)"
  unfolding required_fields_def Let_def
  by (rule rejected_check_keep, rule rejected_check_keep, rule rejected_check_bad,
      erule disjI2)

lemma rejected_required_height:
  "not_number_or_le (js_get t ''height'') 0 \<Longrightarrow> rejected (required_fields t)"
  unfolding required_fields_def Let_def
  by (rule rejected_check_keep, rule rejected_check_bad, erule disjI2)

lemma rejected_required_orientation:
  "js_get t ''orientation'' \<notin> set [JStr ''portrait'', JStr ''landscape''] \<Longrightarrow>
   rejected (required_fields t)"
  unfolding required_fields_def Let_def
  by (rule rejected_check_bad, erule disjI2)

lemma rejected_lacking_both:
  assumes "rejected v \<or> (\<not> js_truthy (js_get els ''barcode'')
                          \<and> \<not> js_truthy (js_get els ''fnsku''))"
  shows "rejected (check (\<not> js_truthy (js_get els ''barcode'')
                          \<and> \<not> js_truthy (js_get els ''fnsku''))
             ''Template must include at least barcode or FNSKU element'' v)"
proof (cases "rejected v")
  case True
  then show ?thesis by (rule rejected_check_keep)
next
  case False
  with assms have "\<not> js_truthy (js_get els ''barcode'') \<and> \<not> js_truthy (js_get els ''fnsku'')"
    by simp
  then show ?thesis by (rule rejected_check_bad)
qed

lemma rejected_elements_validation:
  assumes "elements_validation els v = Inr v'"
    and "rejected v \<or> (\<not> js_truthy (js_get els ''barcode'')
                        \<and> \<not> js_truthy (js_get els ''fnsku''))"
  shows "rejected v'"
proof (cases "\<not> js_truthy els \<or> js_typeof els \<noteq> ''object''")
  case True
  then have "v' = push_error ''Template elements are required'' v"
    using assms(1) unfolding elements_validation_def by simp
  then show ?thesis by (simp only: rejected_push)
next
  case False
  then have e: "validate_elements (own_props els)
          (check (\<not> js_truthy (js_get els ''barcode'') \<and> \<not> js_truthy (js_get els ''fnsku''))
             ''Template must include at least barcode or FNSKU element'' v) = Inr v'"
    using assms(1) unfolding elements_validation_def by simp
  from e rejected_lacking_both [OF assms(2)] show ?thesis by (rule rejected_elements)
qed

lemma validateTemplate_Inr:
  assumes "validateTemplate t = Inr v"
  obtains v5 where
    "elements_validation (js_get t ''elements'') (required_fields t) = Inr v5"
    "v = content_inclusion_validation (js_get t ''contentInclusion'') v5"
proof (cases "elements_validation (js_get t ''elements'') (required_fields t)")
  case (Inl e)
  then show ?thesis using assms unfolding validateTemplate_def
    by (simp split: if_splits)
next
  case (Inr v5)
  then show ?thesis using assms that unfolding validateTemplate_def
    by (simp split: if_splits)
qed

lemma validateTemplate_rejects:
  assumes ok: "validateTemplate t = Inr v"
    and bad: "not_number_or_le (js_get t ''width'') 0
              \<or> not_number_or_le (js_get t ''height'') 0
              \<or> js_get t ''orientation'' \<notin> set [JStr ''portrait'', JStr ''landscape'']
              \<or> (\<not> js_truthy (js_get (js_get t ''elements'') ''barcode'')
                  \<and> \<not> js_truthy (js_get (js_get t ''elements'') ''fnsku''))"
  shows "rejected v"
proof -
  from ok obtain v5 where
    v5: "elements_validation (js_get t ''elements'') (required_fields t) = Inr v5"
    and v: "v = content_inclusion_validation (js_get t ''contentInclusion'') v5"
    by (rule validateTemplate_Inr)
  have "rejected (required_fields t)
        \<or> (\<not> js_truthy (js_get (js_get t ''elements'') ''barcode'')
            \<and> \<not> js_truthy (js_get (js_get t ''elements'') ''fnsku''))"
    using bad
    by (elim disjE)
      (rule disjI1, erule rejected_required_width,
       rule disjI1, erule rejected_required_height,
       rule disjI1, erule rejected_required_orientation,
       rule disjI2, assumption)
  with v5 have "rejected v5" by (rule rejected_elements_validation)
  then show ?thesis
    unfolding v content_inclusion_validation_def by (rule rejected_check_keep)
qed

text \<open>
  Whenever \<^verbatim>\<open>validateTemplate\<close> returns a result for a template with a width or a height
  that is not a positive number, an orientation other than the two allowed, or neither a
  barcode nor an fnsku element, \<^verbatim>\<open>createTemplate\<close> throws the validation error with a
  non-empty list of messages and only initialises the store, and so does
  \<^verbatim>\<open>updateTemplate\<close> on an existing user template.
\<close>

lemma invalid_template_refused:
  assumes ok: "validateTemplate templateData = Inr v"
    and bad: "not_number_or_le (js_get templateData ''width'') 0
              \<or> not_number_or_le (js_get templateData ''height'') 0
              \<or> js_get templateData ''orientation'' \<notin> set [JStr ''portrait'', JStr ''landscape'']
              \<or> (\<not> js_truthy (js_get (js_get templateData ''elements'') ''barcode'')
                  \<and> \<not> js_truthy (js_get (js_get templateData ''elements'') ''fnsku''))"
  shows "createTemplate src templateData s =
           (Inl (ValidationError (errors v)), tm_ensureInitialized s)"
    and "errors v \<noteq> []"
    and "tm_initialized s \<Longrightarrow> js_truthy (js_get (userTemplates s) templateId) \<Longrightarrow>
         updateTemplate now templateId templateData s = (Inl (ValidationError (errors v)), s)"
proof -
  have r: "rejected v" using ok bad by (rule validateTemplate_rejects)
  then have nv: "\<not> isValid v" and ne: "errors v \<noteq> []" by (simp_all add: rejected_def)
  show "createTemplate src templateData s =
           (Inl (ValidationError (errors v)), tm_ensureInitialized s)"
    using ok nv by (rule createTemplate_invalid)
  show "errors v \<noteq> []" by (rule ne)
  show "tm_initialized s \<Longrightarrow> js_truthy (js_get (userTemplates s) templateId) \<Longrightarrow>
         updateTemplate now templateId templateData s = (Inl (ValidationError (errors v)), s)"
    by (rule updateTemplate_invalid [OF _ _ ok nv])
qed

lemma nameless_raises: "validateTemplate nameless_template = Inl TypeError"
  by code_simp

text \<open>
  Claim C3, evaluated where it fails. \<open>nameless_template\<close> has width 0 and no name.
  \<^verbatim>\<open>validateTemplate\<close> records the missing name and the width, and then reads
  \<^verbatim>\<open>template.name.length\<close> for its warnings, which raises. \<^verbatim>\<open>createTemplate\<close> and
  \<^verbatim>\<open>updateTemplate\<close> therefore fail with the engine's \<open>TypeError\<close> and not with the
  validation error and its list of messages; the store is unchanged.
\<close>

theorem createTemplate_nameless_raises_TypeError:
  "js_get nameless_template ''width'' = num 0
   \<and> createTemplate demo_source nameless_template demo_store = (Inl TypeError, demo_store)
   \<and> updateTemplate ''2025-06-01T00:00:00.000Z'' ''user_1_abc'' nameless_template demo_store
       = (Inl TypeError, demo_store)"
proof -
  have e: "tm_ensureInitialized demo_store = demo_store"
    by (simp add: tm_ensureInitialized_def demo_store_def)
  have w: "js_get nameless_template ''width'' = num 0" by code_simp
  have t: "js_truthy (js_get (userTemplates demo_store) ''user_1_abc'')"
    by (simp add: demo_store_def js_get_JObj demo_user_template_def)
  have i: "tm_initialized demo_store" by (simp add: demo_store_def)
  show ?thesis
    using w by (simp add: createTemplate_raises [OF nameless_raises] e
        updateTemplate_raises [OF i t nameless_raises])
qed
section \<open>SettingsManager: diff suppression, saving flag, migration\<close>

lemma any_key_differs_iff:
  "any_key_differs same_object oldSettings newSettings keys =
     (\<exists>key\<in>set keys. \<not> js_strict_eq same_object (js_get oldSettings key) (js_get newSettings key))"
  by (induction keys) simp_all

lemma ready_settings_initialized: "sm_initialized ready_settings"
  by code_simp

lemma ready_settings_global:
  "js_get (JObj (settings ready_settings)) ''globalSettings'' = JObj default_global_settings"
  by code_simp

text \<open>
  The comparison \<^verbatim>\<open>oldKeys.length !== newKeys.length\<close> comes first in
  \<^verbatim>\<open>hasSettingsChanges\<close>: a partial object with fewer keys than \<^verbatim>\<open>globalSettings\<close> counts
  as a change whatever its values. On an initialised manager with the default settings,
  \<^verbatim>\<open>updateGlobalSettings({debugMode: false})\<close> repeats the current value, and yet it changes
  the state, emits \<^verbatim>\<open>globalSettingsChanged\<close>, \<^verbatim>\<open>settingsChanged\<close> and \<^verbatim>\<open>settingsSaving\<close>,
  and starts the debounce timer; the same call a second time emits the three events again.
\<close>

theorem updateGlobalSettings_same_value_is_not_suppressed:
  "js_strict_eq distinct_objects
     (js_get (js_get (JObj (settings ready_settings)) ''globalSettings'') ''debugMode'')
     (js_get (JObj [(''debugMode'', JBool False)]) ''debugMode'')
   \<and> updateGlobalSettings distinct_objects ''2025-01-01T00:00:00.000Z''
         ''2025-06-01T00:00:00.000Z'' (JObj [(''debugMode'', JBool False)]) ready_settings
       \<noteq> (Inr (), ready_settings)
   \<and> map fst (sm_events (snd (updateGlobalSettings distinct_objects
         ''2025-01-01T00:00:00.000Z'' ''2025-06-01T00:00:00.000Z''
         (JObj [(''debugMode'', JBool False)]) ready_settings)))
       = [''initialized'', ''globalSettingsChanged'', ''settingsChanged'', ''settingsSaving'']
   \<and> timers (snd (updateGlobalSettings distinct_objects
         ''2025-01-01T00:00:00.000Z'' ''2025-06-01T00:00:00.000Z''
         (JObj [(''debugMode'', JBool False)]) ready_settings)) = [1]
   \<and> map fst (sm_events (snd (updateGlobalSettings distinct_objects
         ''2025-01-01T00:00:00.000Z'' ''2025-06-02T00:00:00.000Z''
         (JObj [(''debugMode'', JBool False)])
         (snd (updateGlobalSettings distinct_objects
           ''2025-01-01T00:00:00.000Z'' ''2025-06-01T00:00:00.000Z''
           (JObj [(''debugMode'', JBool False)]) ready_settings)))))
       = [''initialized'', ''globalSettingsChanged'', ''settingsChanged'', ''settingsSaving'',
          ''globalSettingsChanged'', ''settingsChanged'', ''settingsSaving'']"
  by code_simp

lemma updateGlobalSettings_unchanged:
  assumes "sm_initialized s"
    and "object_keys (js_get (JObj (settings s)) ''globalSettings'') = Inr oldKeys"
    and "object_keys newSettings = Inr newKeys"
    and "length oldKeys = length newKeys"
    and "\<forall>key\<in>set newKeys. js_strict_eq same_object
           (js_get (js_get (JObj (settings s)) ''globalSettings'') key) (js_get newSettings key)"
  shows "updateGlobalSettings same_object t0 now newSettings s = (Inr (), s)"
  using assms
  by (simp add: updateGlobalSettings_def sm_ensureInitialized_def hasSettingsChanges_def
      any_key_differs_iff Let_def)

lemma next_timer_clear_pending [simp]: "next_timer (clear_pending s) = next_timer s"
  by (simp add: clear_pending_def split: option.splits)

lemma settings_clear_pending [simp]: "settings (clear_pending s) = settings s"
  by (simp add: clear_pending_def split: option.splits)

lemma sm_events_clear_pending [simp]: "sm_events (clear_pending s) = sm_events s"
  by (simp add: clear_pending_def split: option.splits)

lemma debouncedSave_effect:
  "settings (debouncedSave s) = settings s"
  "sm_events (debouncedSave s) = sm_events s @ [(''settingsSaving'', JBool True)]"
  "saveTimeout (debouncedSave s) = Some (next_timer s)"
  "next_timer s \<in> set (timers (debouncedSave s))"
  "isSaving (debouncedSave s)"
  by (simp_all add: debouncedSave_def Let_def sm_emit_def isSaving_def)

lemma updateGlobalSettings_changed:
  assumes "sm_initialized s"
    and "object_keys (js_get (JObj (settings s)) ''globalSettings'') = Inr oldKeys"
    and "object_keys newSettings = Inr newKeys"
    and "length oldKeys \<noteq> length newKeys"
  shows "updateGlobalSettings same_object t0 now newSettings s =
     (Inr (), debouncedSave
        (sm_emit ''settingsChanged''
           (JObj (AList.update ''lastUpdated'' (JStr now)
              (AList.update ''globalSettings''
                 (JObj (obj_assign (js_spread (js_get (JObj (settings s)) ''globalSettings''))
                          (js_spread newSettings))) (settings s))))
           (sm_emit ''globalSettingsChanged''
              (JObj (obj_assign (js_spread (js_get (JObj (settings s)) ''globalSettings''))
                       (js_spread newSettings)))
              (s\<lparr>settings := AList.update ''lastUpdated'' (JStr now)
                    (AList.update ''globalSettings''
                       (JObj (obj_assign
                          (js_spread (js_get (JObj (settings s)) ''globalSettings''))
                          (js_spread newSettings))) (settings s))\<rparr>))))"
  using assms
  by (simp add: updateGlobalSettings_def sm_ensureInitialized_def hasSettingsChanges_def
      Let_def sm_emit_def)

text \<open>
  Claim C4, as the code has it. Take an initialised manager and a partial settings object
  \<^verbatim>\<open>newSettings\<close> whose keys and those of the current \<^verbatim>\<open>globalSettings\<close> can be listed.

  \<^item> If it has as many own keys as \<^verbatim>\<open>globalSettings\<close> and each of its values is strictly
    equal (\<^verbatim>\<open>===\<close>) to the current value of that key, \<^verbatim>\<open>updateGlobalSettings\<close> is a true
    no-op: it returns normally and the whole manager state (settings with \<^verbatim>\<open>lastUpdated\<close>,
    emitted events, timers, backend) is the state before the call. A second such call
    therefore emits nothing either.
  \<^item> If it has a different number of own keys, the call is a change whatever the values:
    it returns normally, \<^verbatim>\<open>globalSettings\<close> becomes the merge, \<^verbatim>\<open>lastUpdated\<close> becomes the
    time of the call, the events \<^verbatim>\<open>globalSettingsChanged\<close>, \<^verbatim>\<open>settingsChanged\<close> and
    \<^verbatim>\<open>settingsSaving\<close> are emitted in this order, and a new debounce timer is pending, so
    that \<^verbatim>\<open>isSaving\<close> holds.
\<close>

theorem updateGlobalSettings_suppressed:
  assumes "sm_initialized s"
    and "object_keys (js_get (JObj (settings s)) ''globalSettings'') = Inr oldKeys"
    and "object_keys newSettings = Inr newKeys"
  shows "(length oldKeys = length newKeys
          \<and> (\<forall>key\<in>set newKeys. js_strict_eq same_object
                (js_get (js_get (JObj (settings s)) ''globalSettings'') key)
                (js_get newSettings key))
          \<longrightarrow> updateGlobalSettings same_object t0 now newSettings s = (Inr (), s))
       \<and> (length oldKeys \<noteq> length newKeys \<longrightarrow>
           (let s' = snd (updateGlobalSettings same_object t0 now newSettings s);
                merged = JObj (obj_assign
                           (js_spread (js_get (JObj (settings s)) ''globalSettings''))
                           (js_spread newSettings))
            in fst (updateGlobalSettings same_object t0 now newSettings s) = Inr ()
               \<and> js_get (JObj (settings s')) ''globalSettings'' = merged
               \<and> js_get (JObj (settings s')) ''lastUpdated'' = JStr now
               \<and> sm_events s' = sm_events s @
                     [(''globalSettingsChanged'', merged),
                      (''settingsChanged'', JObj (settings s')),
                      (''settingsSaving'', JBool True)]
               \<and> saveTimeout s' = Some (next_timer s)
               \<and> next_timer s \<in> set (timers s')
               \<and> isSaving s'))"
proof (intro conjI impI)
  assume "length oldKeys = length newKeys
          \<and> (\<forall>key\<in>set newKeys. js_strict_eq same_object
                (js_get (js_get (JObj (settings s)) ''globalSettings'') key)
                (js_get newSettings key))"
  then show "updateGlobalSettings same_object t0 now newSettings s = (Inr (), s)"
    using updateGlobalSettings_unchanged [OF assms] by simp
next
  assume d: "length oldKeys \<noteq> length newKeys"
  show "(let s' = snd (updateGlobalSettings same_object t0 now newSettings s);
                merged = JObj (obj_assign
                           (js_spread (js_get (JObj (settings s)) ''globalSettings''))
                           (js_spread newSettings))
            in fst (updateGlobalSettings same_object t0 now newSettings s) = Inr ()
               \<and> js_get (JObj (settings s')) ''globalSettings'' = merged
               \<and> js_get (JObj (settings s')) ''lastUpdated'' = JStr now
               \<and> sm_events s' = sm_events s @
                     [(''globalSettingsChanged'', merged),
                      (''settingsChanged'', JObj (settings s')),
                      (''settingsSaving'', JBool True)]
               \<and> saveTimeout s' = Some (next_timer s)
               \<and> next_timer s \<in> set (timers s')
               \<and> isSaving s')"
  proof -
    define merged where "merged = JObj (obj_assign
        (js_spread (js_get (JObj (settings s)) ''globalSettings'')) (js_spread newSettings))"
    define st where "st = AList.update ''lastUpdated'' (JStr now)
        (AList.update ''globalSettings'' merged (settings s))"
    define s1 where "s1 = sm_emit ''settingsChanged'' (JObj st)
        (sm_emit ''globalSettingsChanged'' merged (s\<lparr>settings := st\<rparr>))"
    have u: "updateGlobalSettings same_object t0 now newSettings s = (Inr (), debouncedSave s1)"
      unfolding updateGlobalSettings_changed [OF assms d] s1_def st_def merged_def ..
    have s1: "settings s1 = st" "next_timer s1 = next_timer s"
      "sm_events s1 = sm_events s @ [(''globalSettingsChanged'', merged),
                                     (''settingsChanged'', JObj st)]"
      by (simp_all add: s1_def sm_emit_def)
    have g: "js_get (JObj st) ''globalSettings'' = merged"
      "js_get (JObj st) ''lastUpdated'' = JStr now"
      by (simp_all add: st_def js_get_update_same js_get_update_other)
    show ?thesis
      unfolding u Let_def fst_conv snd_conv merged_def [symmetric]
      using debouncedSave_effect [of s1] by (simp add: s1 g)
  qed
qed

theorem updateGlobalSettings_suppressed_witness:
  "sm_initialized ready_settings
   \<and> object_keys (js_get (JObj (settings ready_settings)) ''globalSettings'')
       = Inr (map fst default_global_settings)
   \<and> object_keys (JObj default_global_settings) = Inr (map fst default_global_settings)
   \<and> updateGlobalSettings distinct_objects ''2025-01-01T00:00:00.000Z''
         ''2025-06-01T00:00:00.000Z'' (JObj default_global_settings) ready_settings
       = (Inr (), ready_settings)
   \<and> object_keys (JObj [(''debugMode'', JBool False)]) = Inr [''debugMode'']
   \<and> length (map fst default_global_settings) \<noteq> length [''debugMode'']
   \<and> js_get (JObj (settings (snd (updateGlobalSettings distinct_objects
         ''2025-01-01T00:00:00.000Z'' ''2025-06-01T00:00:00.000Z''
         (JObj [(''debugMode'', JBool False)]) ready_settings)))) ''lastUpdated''
       = JStr ''2025-06-01T00:00:00.000Z''
   \<and> isSaving (snd (updateGlobalSettings distinct_objects
         ''2025-01-01T00:00:00.000Z'' ''2025-06-01T00:00:00.000Z''
         (JObj [(''debugMode'', JBool False)]) ready_settings))"
proof -
  have k1: "object_keys (js_get (JObj (settings ready_settings)) ''globalSettings'')
              = Inr (map fst default_global_settings)"
    by code_simp
  have k2: "object_keys (JObj default_global_settings) = Inr (map fst default_global_settings)"
    by code_simp
  have k3: "object_keys (JObj [(''debugMode'', JBool False)]) = Inr [''debugMode'']"
    by code_simp
  have l: "length (map fst default_global_settings) \<noteq> length [''debugMode'']"
    by (simp add: default_global_settings_def)
  have e: "\<forall>key\<in>set (map fst default_global_settings). js_strict_eq distinct_objects
         (js_get (js_get (JObj (settings ready_settings)) ''globalSettings'') key)
         (js_get (JObj default_global_settings) key)"
    unfolding ready_settings_global by (simp add: js_get_JObj default_global_settings_def)
  have u: "updateGlobalSettings distinct_objects ''2025-01-01T00:00:00.000Z''
         ''2025-06-01T00:00:00.000Z'' (JObj default_global_settings) ready_settings
       = (Inr (), ready_settings)"
    using updateGlobalSettings_suppressed [OF ready_settings_initialized k1 k2,
        where same_object = distinct_objects and ?t0.0 = "''2025-01-01T00:00:00.000Z''"
          and now = "''2025-06-01T00:00:00.000Z''"] e
    by simp
  have c: "js_get (JObj (settings (snd (updateGlobalSettings distinct_objects
         ''2025-01-01T00:00:00.000Z'' ''2025-06-01T00:00:00.000Z''
         (JObj [(''debugMode'', JBool False)]) ready_settings)))) ''lastUpdated''
       = JStr ''2025-06-01T00:00:00.000Z''
     \<and> isSaving (snd (updateGlobalSettings distinct_objects
         ''2025-01-01T00:00:00.000Z'' ''2025-06-01T00:00:00.000Z''
         (JObj [(''debugMode'', JBool False)]) ready_settings))"
    using updateGlobalSettings_suppressed [OF ready_settings_initialized k1 k3,
        where same_object = distinct_objects and ?t0.0 = "''2025-01-01T00:00:00.000Z''"
          and now = "''2025-06-01T00:00:00.000Z''"] l
    by (simp add: Let_def)
  show ?thesis using ready_settings_initialized k1 k2 u k3 l c by (intro conjI) simp_all
qed

text \<open>
  Claim C5. \<^verbatim>\<open>isSaving\<close> is \<^verbatim>\<open>this.saving || this.saveTimeout !== null\<close>, and the timer
  callback of \<^verbatim>\<open>debouncedSave\<close> never sets \<^verbatim>\<open>saveTimeout\<close> back to \<^verbatim>\<open>null\<close> (only
  \<^verbatim>\<open>forceSave\<close> and \<^verbatim>\<open>cleanup\<close> do). After \<^verbatim>\<open>setSelectedTemplateId('shipping_4x6')\<close> on an
  initialised manager, the debounce timer fires and its write completes: no timer is
  pending, no write is in flight, the backend holds the settings, and \<^verbatim>\<open>isSaving()\<close>
  still answers true.
\<close>

theorem isSaving_stays_true_after_debounced_save:
  "(let s1 = setSelectedTemplateId distinct_objects ''2025-01-01T00:00:00.000Z''
               ''2025-06-01T00:00:00.000Z'' (JStr ''shipping_4x6'') ready_settings;
        s2 = timer_fire 1 s1;
        s3 = snd (save_settle s2)
    in timers s1 = [1] \<and> saving s2 \<and> in_flight s2 \<noteq> None
       \<and> timers s3 = [] \<and> in_flight s3 = None \<and> \<not> saving s3
       \<and> map_of (kv (sm_storage s3)) ''fnsku_extension_settings'' = Some (JObj (settings s3))
       \<and> isSaving s3)"
  by code_simp

lemma js_get_picked:
  "k \<in> set keys \<Longrightarrow>
   js_get (JObj (pick_keys keys (AList.clearjunk kvs))) k = js_get (JObj kvs) k"
  by (simp add: js_get_JObj map_of_pick_keys map_of_clearjunk)

lemma set_global_ok:
  assumes "has_global st"
  obtains st' where "set_global k x st = Inr st'" "has_global st'"
    "map_of st' ''selectedTemplateId'' = map_of st ''selectedTemplateId''"
proof -
  from assms obtain gs where gs: "map_of st ''globalSettings'' = Some (JObj gs)"
    by (auto simp: has_global_def split: option.splits jsval.splits)
  let ?st' = "AList.update ''globalSettings'' (JObj (AList.update k x gs)) st"
  have "set_global k x st = Inr ?st'"
    by (simp add: set_global_def js_get_JObj gs)
  moreover have "has_global ?st'" by (simp add: has_global_def update_conv')
  moreover have "map_of ?st' ''selectedTemplateId'' = map_of st ''selectedTemplateId''"
    by (simp add: update_conv')
  ultimately show ?thesis by (rule that)
qed

lemma maybe_set_global_ok:
  assumes "has_global st"
  obtains st' where "(if c then set_global k x st else Inr st) = Inr st'" "has_global st'"
    "map_of st' ''selectedTemplateId'' = map_of st ''selectedTemplateId''"
proof (cases c)
  case True
  from set_global_ok [OF assms, of k x] obtain st' where
    "set_global k x st = Inr st'" "has_global st'"
    "map_of st' ''selectedTemplateId'' = map_of st ''selectedTemplateId''" .
  with True that show ?thesis by simp
next
  case False
  with assms that show ?thesis by simp
qed

lemma migrate_label_settings_ok:
  assumes g: "has_global st"
  obtains st' m where "migrate_label_settings oldSettings st = (None, st', m)"
    "map_of st' ''selectedTemplateId'' =
       (if js_truthy (js_get oldSettings ''templateId'')
        then Some (js_get oldSettings ''templateId'') else map_of st ''selectedTemplateId'')"
    "js_truthy (js_get oldSettings ''templateId'') \<longrightarrow> m"
proof -
  define st1 where "st1 = (if js_truthy (js_get oldSettings ''templateId'')
     then AList.update ''selectedTemplateId'' (js_get oldSettings ''templateId'') st else st)"
  have g1: "has_global st1" using g by (simp add: st1_def has_global_def update_conv')
  have s1: "map_of st1 ''selectedTemplateId'' =
       (if js_truthy (js_get oldSettings ''templateId'')
        then Some (js_get oldSettings ''templateId'') else map_of st ''selectedTemplateId'')"
    by (simp add: st1_def update_conv')
  from maybe_set_global_ok [OF g1] obtain st2 where
    e2: "(if js_truthy (js_get oldSettings ''barcodeFormat'')
          then set_global ''barcodeFormat'' (js_get oldSettings ''barcodeFormat'') st1
          else Inr st1) = Inr st2"
    and g2: "has_global st2"
    and s2: "map_of st2 ''selectedTemplateId'' = map_of st1 ''selectedTemplateId''" .
  from maybe_set_global_ok [OF g2] obtain st3 where
    e3: "(if js_typeof (js_get oldSettings ''autoExtract'') \<noteq> ''undefined''
          then set_global ''autoExtract'' (js_get oldSettings ''autoExtract'') st2
          else Inr st2) = Inr st3"
    and g3: "has_global st3"
    and s3: "map_of st3 ''selectedTemplateId'' = map_of st2 ''selectedTemplateId''" .
  from maybe_set_global_ok [OF g3] obtain st4 where
    e4: "(if js_typeof (js_get oldSettings ''autoOpenTabs'') \<noteq> ''undefined''
          then set_global ''autoOpenTabs'' (js_get oldSettings ''autoOpenTabs'') st3
          else Inr st3) = Inr st4"
    and g4: "has_global st4"
    and s4: "map_of st4 ''selectedTemplateId'' = map_of st3 ''selectedTemplateId''" .
  from maybe_set_global_ok [OF g4] obtain st5 where
    e5: "(if js_typeof (js_get oldSettings ''debugMode'') \<noteq> ''undefined''
          then set_global ''debugMode'' (js_get oldSettings ''debugMode'') st4
          else Inr st4) = Inr st5"
    and g5: "has_global st5"
    and s5: "map_of st5 ''selectedTemplateId'' = map_of st4 ''selectedTemplateId''" .
  have "migrate_label_settings oldSettings st =
          (None, st5, ((js_truthy (js_get oldSettings ''templateId'')
                        \<or> js_truthy (js_get oldSettings ''barcodeFormat''))
                       \<or> js_typeof (js_get oldSettings ''autoExtract'') \<noteq> ''undefined''
                       \<or> js_typeof (js_get oldSettings ''autoOpenTabs'') \<noteq> ''undefined'')
                      \<or> js_typeof (js_get oldSettings ''debugMode'') \<noteq> ''undefined'')"
    unfolding migrate_label_settings_def Let_def st1_def [symmetric]
    by (simp only: e2 e3 e4 e5 sum.case) simp
  moreover have "map_of st5 ''selectedTemplateId'' =
       (if js_truthy (js_get oldSettings ''templateId'')
        then Some (js_get oldSettings ''templateId'') else map_of st ''selectedTemplateId'')"
    by (simp only: s5 s4 s3 s2 s1)
  ultimately show ?thesis by (rule that) simp
qed


lemma falsy_get:
  "\<not> js_truthy v \<Longrightarrow> k \<notin> set object_prototype_names \<Longrightarrow> \<not> js_truthy (js_get v k)"
  by (cases v rule: js_truthy.cases) (auto simp: js_get_def)

lemma label_fields:
  assumes g: "has_global st"
  obtains st' m where
    "(if js_truthy oldSettings then migrate_label_settings oldSettings st
      else (None, st, False)) = (None, st', m)"
    "map_of st' ''selectedTemplateId'' =
       (if js_truthy (js_get oldSettings ''templateId'')
        then Some (js_get oldSettings ''templateId'') else map_of st ''selectedTemplateId'')"
    "js_truthy (js_get oldSettings ''templateId'') \<longrightarrow> m"
proof (cases "js_truthy oldSettings")
  case True
  from migrate_label_settings_ok [OF g, of oldSettings] obtain st' m where
    "migrate_label_settings oldSettings st = (None, st', m)"
    "map_of st' ''selectedTemplateId'' =
       (if js_truthy (js_get oldSettings ''templateId'')
        then Some (js_get oldSettings ''templateId'') else map_of st ''selectedTemplateId'')"
    "js_truthy (js_get oldSettings ''templateId'') \<longrightarrow> m" .
  with True that show ?thesis by simp
next
  case False
  then have "\<not> js_truthy (js_get oldSettings ''templateId'')"
    by (rule falsy_get) (simp add: object_prototype_names_def)
  with False that [of st False] show ?thesis by simp
qed

lemma extension_template:
  obtains st' migrated where
    "migrate_extension_settings ext st m = (st', migrated)"
    "map_of st' ''selectedTemplateId'' =
       (if js_truthy (js_get (js_get ext ''labelSettings'') ''template'')
        then Some (js_get (js_get ext ''labelSettings'') ''template'')
        else map_of st ''selectedTemplateId'')"
    "migrated = (m \<or> js_truthy (js_get (js_get ext ''labelSettings'') ''template''))"
proof -
  let ?ls = "js_get ext ''labelSettings''"
  have c1: "js_truthy (js_get ?ls ''template'') \<longrightarrow> js_truthy ?ls"
    using falsy_get [of ?ls "''template''"] by (auto simp: object_prototype_names_def)
  have c2: "js_truthy ?ls \<longrightarrow> js_truthy ext"
    using falsy_get [of ext "''labelSettings''"] by (auto simp: object_prototype_names_def)
  show ?thesis
  proof (cases "js_truthy (js_get ?ls ''template'')")
    case True
    with c1 c2 have e: "migrate_extension_settings ext st m =
        (AList.update ''selectedTemplateId'' (js_get ?ls ''template'') st, True)"
      by (simp add: migrate_extension_settings_def)
    show ?thesis by (rule that [OF e]) (simp_all add: True update_conv')
  next
    case False
    then have e: "migrate_extension_settings ext st m = (st, m)"
      by (simp add: migrate_extension_settings_def)
    show ?thesis by (rule that [OF e]) (simp_all add: False)
  qed
qed

lemma persist_migration_ok:
  assumes "\<not> saving s" "faults (sm_storage s) = []"
  shows "\<exists>s'. persist_migration now s = s'
     \<and> settings s' = AList.update ''lastUpdated'' (JStr now) (settings s)
     \<and> sm_initialized s' = sm_initialized s
     \<and> kv (sm_storage s') = drop_keys [''fnskuLabelSettings'', ''extensionSettings'']
          (obj_assign (kv (sm_storage s))
             [(''fnsku_extension_settings'', JObj (settings s'))])
     \<and> calls (sm_storage s') = calls (sm_storage s) @
          [(SetCall [(''fnsku_extension_settings'', JObj (settings s'))], True),
           (RemoveCall [''fnskuLabelSettings'', ''extensionSettings''], True)]"
  using assms
  by (simp add: persist_migration_def saveSettings_def save_begin_def save_settle_def
      storage_set_def storage_remove_def log_call_def next_fault_def sm_emit_def)

text \<open>
  The migration does carry a template id over when it sits where \<^verbatim>\<open>migrateOldSettings\<close>
  reads it. Let the backend answer every call and hold no unified key
  \<^verbatim>\<open>fnsku_extension_settings\<close>, let \<^verbatim>\<open>tid\<close> be \<^verbatim>\<open>extensionSettings.labelSettings.template\<close>
  when that is truthy and \<^verbatim>\<open>fnskuLabelSettings.templateId\<close> otherwise, and let it be truthy.
  Then after \<^verbatim>\<open>init\<close> of a new manager \<^verbatim>\<open>getSettings().selectedTemplateId\<close> is \<^verbatim>\<open>tid\<close>, the
  backend holds the manager's settings under the unified key, both legacy keys are gone,
  and the backend saw exactly four calls, all answered: the two reads, the write of the
  unified object, and only then the removal of the legacy keys.
\<close>

lemma migration_of_fields_read:
  assumes nofault: "faults b = []"
    and nounified: "map_of (kv b) ''fnsku_extension_settings'' = None"
    and old: "old = js_get (JObj (kv b)) ''fnskuLabelSettings''"
    and ls: "ls = js_get (js_get (JObj (kv b)) ''extensionSettings'') ''labelSettings''"
    and tid: "tid = (if js_truthy (js_get ls ''template'') then js_get ls ''template''
                     else js_get old ''templateId'')"
    and truthy: "js_truthy tid"
  shows "(let s' = sm_init now (sm_new created b) in
           js_get (fst (getSettings t s')) ''selectedTemplateId'' = tid
           \<and> map_of (kv (sm_storage s')) ''fnsku_extension_settings''
               = Some (JObj (settings s'))
           \<and> map_of (kv (sm_storage s')) ''fnskuLabelSettings'' = None
           \<and> map_of (kv (sm_storage s')) ''extensionSettings'' = None
           \<and> calls (sm_storage s') = calls b @
               [(GetCall [''fnsku_extension_settings''], True),
                (GetCall [''fnskuLabelSettings'', ''extensionSettings''], True),
                (SetCall [(''fnsku_extension_settings'', JObj (settings s'))], True),
                (RemoveCall [''fnskuLabelSettings'', ''extensionSettings''], True)])"
proof -
  define ext where "ext = js_get (JObj (kv b)) ''extensionSettings''"
  define s0 where "s0 = sm_new created b"
  define b1 where "b1 = log_call (GetCall [''fnsku_extension_settings'']) b"
  define b2 where "b2 = log_call (GetCall [''fnskuLabelSettings'', ''extensionSettings'']) b1"
  have s0: "\<not> saving s0" "\<not> sm_initialized s0" "sm_storage s0 = b"
    by (simp_all add: s0_def sm_new_def)
  define s0b where "s0b = s0\<lparr>sm_storage := b1\<rparr>"
  have s0b: "\<not> saving s0b" "\<not> sm_initialized s0b" "sm_storage s0b = b1"
    by (simp_all add: s0b_def s0)
  have g0: "has_global (settings s0b)"
    by (simp add: s0b_def s0_def sm_new_def has_global_def)
  from label_fields [OF g0, of old] obtain st m where
    lf: "(if js_truthy old then migrate_label_settings old (settings s0b)
          else (None, settings s0b, False)) = (None, st, m)"
    and sel: "map_of st ''selectedTemplateId'' =
       (if js_truthy (js_get old ''templateId'')
        then Some (js_get old ''templateId'') else map_of (settings s0b) ''selectedTemplateId'')"
    and m: "js_truthy (js_get old ''templateId'') \<longrightarrow> m" .
  have ls_ext: "ls = js_get ext ''labelSettings''" by (simp add: ls ext_def)
  from extension_template [of ext st m] obtain st' migrated where
    me: "migrate_extension_settings ext st m = (st', migrated)"
    and sel': "map_of st' ''selectedTemplateId'' =
       (if js_truthy (js_get ls ''template'') then Some (js_get ls ''template'')
        else map_of st ''selectedTemplateId'')"
    and mig: "migrated = (m \<or> js_truthy (js_get ls ''template''))"
    unfolding ls_ext .
  have migrated: "migrated"
    using truthy m mig by (auto simp: tid split: if_splits)
  have seltid: "map_of st' ''selectedTemplateId'' = Some tid"
    using truthy sel sel' by (auto simp: tid split: if_splits)
  have f1: "faults b1 = []" "kv b1 = kv b" "\<not> next_fault b" "calls b1 = calls b @
      [(GetCall [''fnsku_extension_settings''], True)]"
    using nofault by (simp_all add: b1_def log_call_def next_fault_def)
  have f2: "faults b2 = []" "kv b2 = kv b" "\<not> next_fault b1" "calls b2 = calls b @
      [(GetCall [''fnsku_extension_settings''], True),
       (GetCall [''fnskuLabelSettings'', ''extensionSettings''], True)]"
    using f1 by (simp_all add: b2_def log_call_def next_fault_def)
  have unified: "\<not> js_truthy (js_get (JObj (pick_keys [''fnsku_extension_settings'']
                    (AList.clearjunk (kv b)))) ''fnsku_extension_settings'')"
    by (simp add: js_get_JObj map_of_pick_keys map_of_clearjunk nounified
        object_prototype_names_def)
  have picked: "js_get (JObj (pick_keys [''fnskuLabelSettings'', ''extensionSettings'']
                    (AList.clearjunk (kv b)))) ''fnskuLabelSettings'' = old"
    "js_get (JObj (pick_keys [''fnskuLabelSettings'', ''extensionSettings'']
                    (AList.clearjunk (kv b)))) ''extensionSettings'' = ext"
    by (simp_all add: js_get_picked old ext_def)
  define s1 where "s1 = s0b\<lparr>sm_storage := b2, settings := st'\<rparr>"
  have s1: "\<not> saving s1" "faults (sm_storage s1) = []" "settings s1 = st'"
    "sm_storage s1 = b2" "\<not> sm_initialized s1"
    using s0b f2 by (simp_all add: s1_def)
  have migrate: "migrateOldSettings now s0b = persist_migration now s1"
    using f1 f2 migrated
    by (simp add: migrateOldSettings_def storage_get_def s0b b2_def [symmetric] picked Let_def
        lf me s1_def [symmetric])
  have load: "loadSettings now s0 = persist_migration now s1"
    using f1 unified
    by (simp add: loadSettings_def storage_get_def s0 b1_def [symmetric] Let_def
        s0b_def [symmetric] migrate)
  from persist_migration_ok [OF s1(1) s1(2), of now] obtain p where
    p: "persist_migration now s1 = p"
    and ps: "settings p = AList.update ''lastUpdated'' (JStr now) st'"
    and pi: "\<not> sm_initialized p"
    and pk: "kv (sm_storage p) = drop_keys [''fnskuLabelSettings'', ''extensionSettings'']
          (obj_assign (kv b) [(''fnsku_extension_settings'', JObj (settings p))])"
    and pc: "calls (sm_storage p) = calls b2 @
          [(SetCall [(''fnsku_extension_settings'', JObj (settings p))], True),
           (RemoveCall [''fnskuLabelSettings'', ''extensionSettings''], True)]"
    using s1 f2 by auto
  define s' where "s' = sm_init now (sm_new created b)"
  have s': "settings s' = settings p" "sm_storage s' = sm_storage p" "sm_initialized s'"
    using s0(2)
    by (simp_all add: s'_def s0_def [symmetric] sm_init_def load p Let_def sm_emit_def)
  have fsel: "js_get (JObj (settings p)) ''selectedTemplateId'' = tid"
    by (simp add: ps js_get_JObj update_conv' seltid)
  have get: "fst (getSettings t s') = JObj (js_spread (JObj (settings p)))"
    by (simp add: getSettings_def sm_ensureInitialized_def s' Let_def)
  have gsel: "js_get (fst (getSettings t s')) ''selectedTemplateId'' = tid"
    using fsel by (simp add: get js_spread_def js_get_JObj map_of_clearjunk)
  show ?thesis
    unfolding Let_def s'_def [symmetric]
    by (simp add: gsel s' pk pc f2 map_of_drop_keys map_of_storage_update)
qed

text \<open>
  Claim C8. The legacy object the earlier version of the extension stores keeps the
  template id in \<^verbatim>\<open>fnskuLabelSettings.template\<close>, and \<^verbatim>\<open>migrateOldSettings\<close> reads
  \<^verbatim>\<open>oldSettings.templateId\<close>. On a backend with that object, holding \<^verbatim>\<open>shipping_4x6\<close>, and
  no unified key, \<^verbatim>\<open>init\<close> copies \<^verbatim>\<open>barcodeFormat\<close>, which sets \<^verbatim>\<open>migrated\<close>, writes the
  unified object and removes the legacy key: afterwards
  \<^verbatim>\<open>getSettings().selectedTemplateId\<close> is the compiled-in default \<^verbatim>\<open>thermal_57x32\<close> and the
  user's template id is nowhere in the backend.
\<close>

theorem migration_drops_legacy_template:
  "(let s' = sm_init ''2025-06-01T00:00:00.000Z''
               (sm_new ''2025-01-01T00:00:00.000Z'' legacy_backend)
    in js_get (js_get (JObj (kv legacy_backend)) ''fnskuLabelSettings'') ''template''
         = JStr ''shipping_4x6''
       \<and> map_of (kv legacy_backend) ''fnsku_extension_settings'' = None
       \<and> js_get (fst (getSettings ''2025-06-02T00:00:00.000Z'' s')) ''selectedTemplateId''
           = JStr ''thermal_57x32''
       \<and> map_of (kv (sm_storage s')) ''fnsku_extension_settings'' = Some (JObj (settings s'))
       \<and> map_of (kv (sm_storage s')) ''fnskuLabelSettings'' = None
       \<and> map fst (kv (sm_storage s'))
           = [''extensionEnabled'', ''installDate'', ''fnsku_extension_settings'']
       \<and> map fst (calls (sm_storage s'))
           = [GetCall [''fnsku_extension_settings''],
              GetCall [''fnskuLabelSettings'', ''extensionSettings''],
              SetCall [(''fnsku_extension_settings'', JObj (settings s'))],
              RemoveCall [''fnskuLabelSettings'', ''extensionSettings'']]
       \<and> map snd (calls (sm_storage s')) = [True, True, True, True])"
  by code_simp
section \<open>PDFLabelGenerator: pages, the single encode, the mandatory field\<close>

lemma barcode_rasters_append [simp]:
  "barcode_rasters (xs @ ys) = barcode_rasters xs @ barcode_rasters ys"
  by (simp add: barcode_rasters_def)

lemma barcode_rasters_Nil [simp]: "barcode_rasters [] = []"
  by (simp add: barcode_rasters_def)




lemma render_fnsku_rasters [simp]:
  "barcode_rasters (render_fnsku elements contentInclusion productData config) = []"
  by (simp add: render_fnsku_def Let_def barcode_rasters_def)

lemma render_sku_rasters [simp]:
  "barcode_rasters (render_sku env elements contentInclusion productData config) = []"
  by (simp add: render_sku_def Let_def barcode_rasters_def)

lemma render_condition_rasters [simp]:
  "barcode_rasters (render_condition env template elements contentInclusion conditionSettings
      productData config) = []"
  by (simp add: render_condition_def Let_def barcode_rasters_def)

lemma jpeg_not_barcode:
  "concat (map png_data
     (case loaded of None \<Rightarrow> [] | Some imageData \<Rightarrow> [AddImage imageData ''JPEG'' x y w h])) = []"
  by (cases loaded) simp_all

lemma render_image_rasters [simp]:
  "barcode_rasters (render_image env page elements contentInclusion productData) = []"
  unfolding render_image_def barcode_rasters_def Let_def
  by (simp only: jpeg_not_barcode list.map concat.simps split: if_splits)
    (intro conjI impI refl)
















text \<open>
  Claim C9. When the active template id resolves to a template and the record's \<^verbatim>\<open>fnsku\<close>
  is falsy (absent, \<^verbatim>\<open>undefined\<close>, \<^verbatim>\<open>null\<close> or the empty string), \<^verbatim>\<open>generateLabels\<close> fails
  with the error \<^verbatim>\<open>FNSKU is required for label generation\<close> for every quantity, settings
  argument and collaborators: no document is returned and the encoder was not called. The
  check of the template comes first in the source, so an id that does not resolve fails
  with \<^verbatim>\<open>Template not found\<close> instead.
\<close>

theorem generateLabels_requires_fnsku:
  assumes "\<not> js_truthy (js_get (JObj productData) ''fnsku'')"
    and "getTemplate (js_string env
            (active_template_id settingsArg (fst (getSettings t0 sm0)))) tm0 = (Inr template, tm)"
    and "js_truthy template"
  shows "outcome (generateLabels env t0 productData quantity settingsArg tm0 sm0)
           = Inl MissingRequiredField
         \<and> encoder_calls (generateLabels env t0 productData quantity settingsArg tm0 sm0) = []"
proof -
  obtain currentSettings sm where gs: "getSettings t0 sm0 = (currentSettings, sm)"
    by (cases "getSettings t0 sm0")
  have res: "getTemplate (js_string env (active_template_id settingsArg currentSettings)) tm0
               = (Inr template, tm)"
    using assms(2) by (simp add: gs)
  show ?thesis
    using assms(1,3) by (simp add: generateLabels_def gs res Let_def)
qed


lemma demo_template_resolves:
  "getTemplate (js_string demo_env (active_template_id []
       (fst (getSettings ''2025-01-01T00:00:00.000Z'' ready_settings)))) demo_store
     = (Inr (JObj (js_spread thermal_57x32)), demo_store)"
  by code_simp

lemma demo_template_found:
  "js_truthy (JObj (js_spread thermal_57x32))"
  "\<not> js_nullish (js_get (JObj (js_spread thermal_57x32)) ''elements'')"
  by code_simp+

lemma demo_record_fields:
  "js_get (JObj demo_record) ''fnsku'' = JStr ''X001ABC123''"
  "js_get (JObj demo_record) ''title'' = JStr ''Widget''"
  "\<not> js_truthy (js_get (JObj record_without_fnsku) ''fnsku'')"
  by code_simp+


lemma demo_three_labels:
  "map_sum id (map barcode_rasters \<circ> pages)
     (outcome (generateLabels demo_env ''2025-01-01T00:00:00.000Z'' demo_record (Fin 3) []
        demo_store ready_settings))
   = Inr [[JStr ''data:image/png;base64,iVBORw0KGgo=''],
          [JStr ''data:image/png;base64,iVBORw0KGgo=''],
          [JStr ''data:image/png;base64,iVBORw0KGgo='']]"
  by code_simp






theorem generateLabels_requires_fnsku_witness:
  "\<not> js_truthy (js_get (JObj record_without_fnsku) ''fnsku'')
   \<and> outcome (generateLabels demo_env ''2025-01-01T00:00:00.000Z'' record_without_fnsku
        (Fin 1) [] demo_store ready_settings) = Inl MissingRequiredField
   \<and> encoder_calls (generateLabels demo_env ''2025-01-01T00:00:00.000Z'' record_without_fnsku
        (Fin 1) [] demo_store ready_settings) = []"
  using generateLabels_requires_fnsku [OF demo_record_fields(3) demo_template_resolves
      demo_template_found(1), of "Fin 1"] demo_record_fields(3)
  by (intro conjI) simp_all

end
